theory Spec2Isabelle
  imports Complex_Main "HOL-Library.AList"
begin

section \<open>JavaScript values\<close>

text \<open>
  The route handlers and the pages work on untyped JSON data, so the model keeps the
  values dynamic. A number is a double: a finite value (kept as the rational it denotes),
  an infinity or NaN. A string is the list of its code units (the model covers the code
  units below 256). An object is the list of its own properties, looked up by key.
\<close>

datatype number = NaN | NegInf | Fin rat | PosInf

datatype jsval =
    JUndefined
  | JNull
  | JBool bool
  | JNum number
  | JStr string
  | JArr "jsval list"
  | JObj "(string \<times> jsval) list"
  | JDate nat

type_synonym object = "(string \<times> jsval) list"

text \<open>\<open>o[k]\<close>: a property that the object does not have reads as \<open>undefined\<close>.\<close>

definition get :: "object \<Rightarrow> string \<Rightarrow> jsval" where
  "get obj k = (case map_of obj k of None \<Rightarrow> JUndefined | Some v \<Rightarrow> v)"

text \<open>\<open>v?.k\<close>: optional chaining; a value that is not an object has no such property.\<close>

definition opt_get :: "jsval \<Rightarrow> string \<Rightarrow> jsval" where
  "opt_get v k = (case v of JObj obj \<Rightarrow> get obj k | _ \<Rightarrow> JUndefined)"

text \<open>The values that \<open>!v\<close> and \<open>v || d\<close> treat as false.\<close>

fun falsy :: "jsval \<Rightarrow> bool" where
  "falsy JUndefined = True"
| "falsy JNull = True"
| "falsy (JBool b) = (\<not> b)"
| "falsy (JNum n) = (n = Fin 0 \<or> n = NaN)"
| "falsy (JStr s) = (s = [])"
| "falsy (JArr xs) = False"
| "falsy (JObj obj) = False"
| "falsy (JDate t) = False"

text \<open>\<open>v || null\<close>\<close>

definition or_null :: "jsval \<Rightarrow> jsval" where
  "or_null v = (if falsy v then JNull else v)"

text \<open>\<open>a < b\<close> on numbers; every comparison with NaN is false.\<close>

fun number_less :: "number \<Rightarrow> number \<Rightarrow> bool" where
  "number_less NaN b = False"
| "number_less a NaN = False"
| "number_less PosInf b = False"
| "number_less a NegInf = False"
| "number_less NegInf b = True"
| "number_less a PosInf = True"
| "number_less (Fin a) (Fin b) = (a < b)"

text \<open>
  What the platform and the validation library decide and the repository does not define:
  whether a string is a URL (the library's \<open>url\<close> check), whether it is an e-mail address
  (its \<open>email\<close> check), the number a string denotes and the string an array converts to
  (both used by \<open>Number(v)\<close>). They are parameters of the model.
\<close>

record js_env =
  isUrl :: "string \<Rightarrow> bool"
  isEmail :: "string \<Rightarrow> bool"
  StringToNumber :: "string \<Rightarrow> number"
  ArrayToString :: "jsval list \<Rightarrow> string"

text \<open>\<open>Number(v)\<close>\<close>

fun Number_js :: "js_env \<Rightarrow> jsval \<Rightarrow> number" where
  "Number_js env JUndefined = NaN"
| "Number_js env JNull = Fin 0"
| "Number_js env (JBool b) = (if b then Fin 1 else Fin 0)"
| "Number_js env (JNum n) = n"
| "Number_js env (JStr s) = StringToNumber env s"
| "Number_js env (JArr xs) = StringToNumber env (ArrayToString env xs)"
| "Number_js env (JObj obj) = NaN"
| "Number_js env (JDate t) = Fin (of_nat t)"

section \<open>The validation library\<close>

text \<open>
  The schemas of the repository are values built with the combinators of the validation
  library. The model has one constructor for each combinator the two schemas use, and
  \<open>zparse\<close> gives the library's verdict on a value: \<open>None\<close> when the value has an issue,
  otherwise the parsed output. The texts of the messages are left out: the model reports
  which fields have issues.
\<close>

datatype string_check =
    SMin nat
  | SMax nat
  | SUrl
  | SEmail
  | SRegex "string \<Rightarrow> bool"

datatype number_check = NMin rat | NMax rat

datatype ztype =
    ZString "string_check list"
  | ZEnum "string list"
  | ZLiteral string
  | ZCoerceNumber "number_check list"
  | ZBoolean
  | ZArrayMin ztype nat
  | ZOptional ztype
  | ZOr ztype ztype
  | ZDefault ztype jsval
  | ZRefine ztype "jsval \<Rightarrow> bool"

fun string_check_ok :: "js_env \<Rightarrow> string \<Rightarrow> string_check \<Rightarrow> bool" where
  "string_check_ok env s (SMin n) = (\<not> length s < n)"
| "string_check_ok env s (SMax n) = (\<not> length s > n)"
| "string_check_ok env s SUrl = isUrl env s"
| "string_check_ok env s SEmail = isEmail env s"
| "string_check_ok env s (SRegex r) = r s"

fun number_check_ok :: "number \<Rightarrow> number_check \<Rightarrow> bool" where
  "number_check_ok n (NMin m) = (\<not> number_less n (Fin m))"
| "number_check_ok n (NMax m) = (\<not> number_less (Fin m) n)"

primrec zparse :: "js_env \<Rightarrow> ztype \<Rightarrow> jsval \<Rightarrow> jsval option" where
  "zparse env (ZString checks) = (\<lambda>v.
     case v of
       JStr s \<Rightarrow> if list_all (string_check_ok env s) checks then Some (JStr s) else None
     | _ \<Rightarrow> None)"
| "zparse env (ZEnum values) = (\<lambda>v.
     case v of
       JStr s \<Rightarrow> if s \<in> set values then Some (JStr s) else None
     | _ \<Rightarrow> None)"
| "zparse env (ZLiteral l) = (\<lambda>v. if v = JStr l then Some v else None)"
| "zparse env (ZCoerceNumber checks) = (\<lambda>v.
     let n = Number_js env v
     in if n = NaN then None
        else if list_all (number_check_ok n) checks then Some (JNum n) else None)"
| "zparse env ZBoolean = (\<lambda>v. case v of JBool b \<Rightarrow> Some (JBool b) | _ \<Rightarrow> None)"
| "zparse env (ZArrayMin t n) = (\<lambda>v.
     case v of
       JArr xs \<Rightarrow>
         (case those (map (zparse env t) xs) of
            Some ys \<Rightarrow> if length xs < n then None else Some (JArr ys)
          | None \<Rightarrow> None)
     | _ \<Rightarrow> None)"
| "zparse env (ZOptional t) = (\<lambda>v. if v = JUndefined then Some JUndefined else zparse env t v)"
| "zparse env (ZOr a b) = (\<lambda>v.
     case zparse env a v of Some r \<Rightarrow> Some r | None \<Rightarrow> zparse env b v)"
| "zparse env (ZDefault t d) = (\<lambda>v. zparse env t (if v = JUndefined then d else v))"
| "zparse env (ZRefine t p) = (\<lambda>v.
     case zparse env t v of Some r \<Rightarrow> if p r then Some r else None | None \<Rightarrow> None)"

text \<open>
  The flattened error of a failed parse: the number of issues on the value as a whole and
  the keys that have an issue, in the order of the schema.
\<close>

record flat_error =
  formErrors :: nat
  fieldErrors :: "string list"

text \<open>
  \<open>z.object(shape).safeParse(v)\<close>: a value that is not an object is one issue on the whole
  value. Otherwise each key of the shape is parsed on the property of that key; unknown
  keys are dropped and a key whose output is \<open>undefined\<close> is not set.
\<close>

definition parse_fields :: "js_env \<Rightarrow> (string \<times> ztype) list \<Rightarrow> object \<Rightarrow> (string \<times> jsval option) list" where
  "parse_fields env shape obj = map (\<lambda>(k, t). (k, zparse env t (get obj k))) shape"

definition failed_keys :: "(string \<times> jsval option) list \<Rightarrow> string list" where
  "failed_keys rs = map fst (filter (\<lambda>(k, r). r = None) rs)"

definition parsed_object :: "(string \<times> jsval option) list \<Rightarrow> object" where
  "parsed_object rs =
     List.map_filter (\<lambda>(k, r).
       case r of None \<Rightarrow> None
       | Some v \<Rightarrow> if v = JUndefined then None else Some (k, v)) rs"

definition safeParse :: "js_env \<Rightarrow> (string \<times> ztype) list \<Rightarrow> jsval \<Rightarrow> flat_error + object" where
  "safeParse env shape v =
     (case v of
        JObj obj \<Rightarrow>
          (let rs = parse_fields env shape obj
           in if failed_keys rs = [] then Inr (parsed_object rs)
              else Inl \<lparr>formErrors = 0, fieldErrors = failed_keys rs\<rparr>)
      | _ \<Rightarrow> Inl \<lparr>formErrors = 1, fieldErrors = []\<rparr>)"

section \<open>The registration schemas\<close>

text \<open>
  The pattern of the phone number, \<open>/^[+]?[0-9\s\-\(\)]{10,}$/\<close>: an optional plus sign,
  then at least ten characters, each a digit, a white space, a hyphen or a parenthesis,
  up to the end of the string.
\<close>

definition phone_char :: "char \<Rightarrow> bool" where
  "phone_char c =
     ((48 \<le> (of_char c :: nat) \<and> (of_char c :: nat) \<le> 57)
      \<or> (of_char c :: nat) \<in> {9, 10, 11, 12, 13, 32, 160}
      \<or> c = CHR ''-'' \<or> c = CHR ''('' \<or> c = CHR '')'')"

definition phone_regex :: "string \<Rightarrow> bool" where
  "phone_regex s =
     (let rest = (case s of [] \<Rightarrow> [] | c # cs \<Rightarrow> if c = CHR ''+'' then cs else s)
      in 10 \<le> length rest \<and> list_all phone_char rest)"

text \<open>\<open>sellerRegistrationSchema\<close> of \<open>api/seller/register/route.ts\<close>\<close>

definition route_sellerRegistrationSchema :: "(string \<times> ztype) list" where
  "route_sellerRegistrationSchema =
    [(''businessName'', ZString [SMin 2]),
     (''businessType'', ZEnum [''INDIVIDUAL'', ''SOLE_PROPRIETORSHIP'', ''PARTNERSHIP'',
                               ''LLC'', ''CORPORATION'', ''NONPROFIT'']),
     (''description'', ZOptional (ZString [SMin 10, SMax 500])),
     (''website'', ZOr (ZOptional (ZString [SUrl])) (ZLiteral '''')),
     (''phone'', ZString [SRegex phone_regex]),
     (''businessEmail'', ZOr (ZOptional (ZString [SEmail])) (ZLiteral '''')),
     (''contactPersonName'', ZString [SMin 2]),
     (''addressLine1'', ZString [SMin 5]),
     (''addressLine2'', ZOptional (ZString [])),
     (''city'', ZString [SMin 2]),
     (''state'', ZString [SMin 2]),
     (''country'', ZString [SMin 2]),
     (''postalCode'', ZString [SMin 3]),
     (''taxId'', ZString [SMin 5]),
     (''gstVatNumber'', ZOptional (ZString [])),
     (''businessLicense'', ZString [SMin 3]),
     (''yearsInBusiness'', ZOptional (ZCoerceNumber [NMin 0, NMax 100])),
     (''facebookUrl'', ZOr (ZOptional (ZString [SUrl])) (ZLiteral '''')),
     (''instagramUrl'', ZOr (ZOptional (ZString [SUrl])) (ZLiteral '''')),
     (''linkedinUrl'', ZOr (ZOptional (ZString [SUrl])) (ZLiteral '''')),
     (''twitterUrl'', ZOr (ZOptional (ZString [SUrl])) (ZLiteral '''')),
     (''bankAccountHolder'', ZString [SMin 2]),
     (''bankName'', ZString [SMin 2]),
     (''accountNumber'', ZString [SMin 8]),
     (''ifscSwiftCode'', ZString [SMin 8]),
     (''bankBranchAddress'', ZOptional (ZString [])),
     (''productCategories'', ZArrayMin (ZString []) 1),
     (''managesOwnShipping'', ZDefault ZBoolean (JBool True)),
     (''needsShippingHelp'', ZDefault ZBoolean (JBool False)),
     (''termsAccepted'', ZRefine ZBoolean (\<lambda>val. val = JBool True))]"

text \<open>\<open>sellerRegistrationSchema\<close> of \<open>seller/register/page.tsx\<close>\<close>

definition page_sellerRegistrationSchema :: "(string \<times> ztype) list" where
  "page_sellerRegistrationSchema =
    [(''businessName'', ZString [SMin 2]),
     (''businessType'', ZEnum [''INDIVIDUAL'', ''SOLE_PROPRIETORSHIP'', ''PARTNERSHIP'',
                               ''LLC'', ''CORPORATION'', ''NONPROFIT'']),
     (''description'', ZOptional (ZString [SMin 10, SMax 500])),
     (''website'', ZOr (ZOptional (ZString [SUrl])) (ZLiteral '''')),
     (''phone'', ZString [SRegex phone_regex]),
     (''businessEmail'', ZOr (ZOptional (ZString [SEmail])) (ZLiteral '''')),
     (''contactPersonName'', ZString [SMin 2]),
     (''addressLine1'', ZString [SMin 5]),
     (''addressLine2'', ZOptional (ZString [])),
     (''city'', ZString [SMin 2]),
     (''state'', ZString [SMin 2]),
     (''country'', ZString [SMin 2]),
     (''postalCode'', ZString [SMin 3]),
     (''taxId'', ZString [SMin 1]),
     (''gstVatNumber'', ZOptional (ZString [])),
     (''businessLicense'', ZString [SMin 1]),
     (''yearsInBusiness'', ZOptional (ZCoerceNumber [NMin 0, NMax 100])),
     (''facebookUrl'', ZOr (ZOptional (ZString [SUrl])) (ZLiteral '''')),
     (''instagramUrl'', ZOr (ZOptional (ZString [SUrl])) (ZLiteral '''')),
     (''linkedinUrl'', ZOr (ZOptional (ZString [SUrl])) (ZLiteral '''')),
     (''twitterUrl'', ZOr (ZOptional (ZString [SUrl])) (ZLiteral '''')),
     (''bankAccountHolder'', ZString [SMin 1]),
     (''bankName'', ZString [SMin 1]),
     (''accountNumber'', ZString [SMin 1]),
     (''ifscSwiftCode'', ZString [SMin 1]),
     (''bankBranchAddress'', ZOptional (ZString [])),
     (''productCategories'', ZArrayMin (ZString []) 1),
     (''managesOwnShipping'', ZDefault ZBoolean (JBool True)),
     (''needsShippingHelp'', ZDefault ZBoolean (JBool False)),
     (''termsAccepted'', ZRefine ZBoolean (\<lambda>val. val = JBool True))]"

section \<open>The profile store\<close>

text \<open>
  The two tables the handlers use. A row is an object of its columns. The handlers look a
  profile up by \<open>userId\<close> with \<open>findUnique\<close>, which the persistence layer offers for a
  column with a unique index only, so \<open>create\<close> refuses a second row for a \<open>userId\<close>.
  \<open>update\<close> refuses when no row matches. A refusal is an exception in the handler.
\<close>

record db =
  sellerProfile :: "object list"
  user :: "object list"

datatype db_error = UniqueConstraintFailed | RecordNotFound

text \<open>\<open>select\<close>: the projection of a row on the chosen columns.\<close>

definition select :: "string list \<Rightarrow> object \<Rightarrow> object" where
  "select columns row = map (\<lambda>k. (k, get row k)) columns"

definition sellerProfile_findUnique :: "db \<Rightarrow> jsval \<Rightarrow> object option" where
  "sellerProfile_findUnique st userId =
     find (\<lambda>row. get row ''userId'' = userId) (sellerProfile st)"

text \<open>
  \<open>db.sellerProfile.create({data, select})\<close>. The columns that the caller does not give
  (the key \<open>id\<close>, the time stamps, the rating and sales counters) are filled in by the
  persistence layer; they are the parameter \<open>generated\<close>.
\<close>

definition sellerProfile_create ::
  "object \<Rightarrow> db \<Rightarrow> object \<Rightarrow> string list \<Rightarrow> db_error + (object \<times> db)" where
  "sellerProfile_create generated st data columns =
     (case find (\<lambda>row. get row ''userId'' = get data ''userId'') (sellerProfile st) of
        Some row \<Rightarrow> Inl UniqueConstraintFailed
      | None \<Rightarrow>
          (let row = data @ generated
           in Inr (select columns row, st\<lparr>sellerProfile := sellerProfile st @ [row]\<rparr>)))"

text \<open>\<open>db.user.update({where: {id}, data})\<close>\<close>

definition db_user_update :: "db \<Rightarrow> jsval \<Rightarrow> object \<Rightarrow> db_error + db" where
  "db_user_update st uid data =
     (case find (\<lambda>row. get row ''id'' = uid) (user st) of
        None \<Rightarrow> Inl RecordNotFound
      | Some found \<Rightarrow>
          Inr (st\<lparr>user := map (\<lambda>row. if get row ''id'' = uid
                                     then AList.updates (map fst data) (map snd data) row
                                     else row) (user st)\<rparr>))"

section \<open>The endpoints\<close>

text \<open>
  A request carries the session that the authentication library finds for it (\<open>null\<close>
  when there is none) and its body: the parsed JSON, or \<open>None\<close> when the body is not JSON
  and \<open>request.json()\<close> throws. A response is a status and the keys of its JSON body.
\<close>

record request =
  session :: jsval
  body :: "jsval option"

record response =
  status :: nat
  message :: "string option"
  errors :: "flat_error option"
  seller :: "object option"

text \<open>\<open>session?.user?.id\<close>\<close>

definition session_user_id :: "jsval \<Rightarrow> jsval" where
  "session_user_id sess = opt_get (opt_get sess ''user'') ''id''"

text \<open>What one call reads from outside: the clock and the columns the store generates.\<close>

record call =
  now :: nat
  generated :: object

definition message_response :: "nat \<Rightarrow> string \<Rightarrow> response" where
  "message_response code text =
     \<lparr>status = code, message = Some text, errors = None, seller = None\<rparr>"

text \<open>The \<open>data\<close> object that \<open>POST\<close> hands to \<open>create\<close>.\<close>

definition create_data :: "jsval \<Rightarrow> nat \<Rightarrow> object \<Rightarrow> object" where
  "create_data userId time data =
    [(''userId'', userId),
     (''businessName'', get data ''businessName''),
     (''businessType'', get data ''businessType''),
     (''description'', or_null (get data ''description'')),
     (''website'', or_null (get data ''website'')),
     (''phone'', get data ''phone''),
     (''businessEmail'', or_null (get data ''businessEmail'')),
     (''contactPersonName'', get data ''contactPersonName''),
     (''addressLine1'', get data ''addressLine1''),
     (''addressLine2'', or_null (get data ''addressLine2'')),
     (''city'', get data ''city''),
     (''state'', get data ''state''),
     (''country'', get data ''country''),
     (''postalCode'', get data ''postalCode''),
     (''taxId'', get data ''taxId''),
     (''gstVatNumber'', or_null (get data ''gstVatNumber'')),
     (''businessLicense'', get data ''businessLicense''),
     (''yearsInBusiness'', or_null (get data ''yearsInBusiness'')),
     (''facebookUrl'', or_null (get data ''facebookUrl'')),
     (''instagramUrl'', or_null (get data ''instagramUrl'')),
     (''linkedinUrl'', or_null (get data ''linkedinUrl'')),
     (''twitterUrl'', or_null (get data ''twitterUrl'')),
     (''bankAccountHolder'', get data ''bankAccountHolder''),
     (''bankName'', get data ''bankName''),
     (''accountNumber'', get data ''accountNumber''),
     (''ifscSwiftCode'', get data ''ifscSwiftCode''),
     (''bankBranchAddress'', or_null (get data ''bankBranchAddress'')),
     (''productCategories'', get data ''productCategories''),
     (''managesOwnShipping'', get data ''managesOwnShipping''),
     (''needsShippingHelp'', get data ''needsShippingHelp''),
     (''termsAccepted'', get data ''termsAccepted''),
     (''termsAcceptedAt'', if \<not> falsy (get data ''termsAccepted'') then JDate time else JNull),
     (''verificationStatus'', JStr ''PENDING'')]"

text \<open>\<open>POST\<close> of \<open>api/seller/register/route.ts\<close>; an exception ends in the handler's \<open>catch\<close>.\<close>

definition POST :: "js_env \<Rightarrow> call \<Rightarrow> db \<Rightarrow> request \<Rightarrow> response \<times> db" where
  "POST env c st req =
    (let uid = session_user_id (session req) in
     if falsy uid then (message_response 401 ''Authentication required'', st)
     else
       (case body req of
          None \<Rightarrow> (message_response 500 ''Internal server error'', st)
        | Some b \<Rightarrow>
           (case safeParse env route_sellerRegistrationSchema b of
              Inl e \<Rightarrow>
                (\<lparr>status = 400, message = Some ''Invalid input'', errors = Some e,
                  seller = None\<rparr>, st)
            | Inr data \<Rightarrow>
               (case sellerProfile_findUnique st uid of
                  Some existingSeller \<Rightarrow>
                    (message_response 409 ''You already have a seller profile'', st)
                | None \<Rightarrow>
                   (case sellerProfile_create (generated c) st
                           (create_data uid (now c) data)
                           [''id'', ''businessName'', ''businessType'', ''verificationStatus'',
                            ''createdAt''] of
                      Inl err \<Rightarrow> (message_response 500 ''Internal server error'', st)
                    | Inr (created, st1) \<Rightarrow>
                       (case db_user_update st1 uid [(''role'', JStr ''SELLER'')] of
                          Inl err \<Rightarrow> (message_response 500 ''Internal server error'', st1)
                        | Inr st2 \<Rightarrow>
                            (\<lparr>status = 201,
                              message = Some ''Seller profile created successfully'',
                              errors = None, seller = Some created\<rparr>, st2)))))))"

text \<open>\<open>GET\<close> of the profile route\<close>

definition GET :: "db \<Rightarrow> jsval \<Rightarrow> response \<times> db" where
  "GET st sess =
    (let uid = session_user_id sess in
     if falsy uid then (message_response 401 ''Authentication required'', st)
     else
       (case map_option
               (select [''id'', ''businessName'', ''businessType'', ''description'',
                        ''website'', ''phone'', ''verificationStatus'', ''averageRating'',
                        ''totalRatings'', ''totalSales'', ''createdAt'', ''updatedAt''])
               (sellerProfile_findUnique st uid) of
          None \<Rightarrow> (message_response 404 ''Seller profile not found'', st)
        | Some found \<Rightarrow>
            (\<lparr>status = 200, message = None, errors = None, seller = Some found\<rparr>, st)))"

text \<open>A sequence of registration calls, each with its own clock and generated columns.\<close>

fun POST_all :: "js_env \<Rightarrow> db \<Rightarrow> (call \<times> request) list \<Rightarrow> db" where
  "POST_all env st [] = st"
| "POST_all env st ((c, req) # rest) = POST_all env (snd (POST env c st req)) rest"

section \<open>The registration page\<close>

text \<open>\<open>productCategories\<close> of \<open>seller/register/page.tsx\<close>: the catalog the form offers.\<close>

definition productCategories :: "string list" where
  "productCategories =
    [''Electronics'', ''Fashion & Clothing'', ''Home & Garden'', ''Health & Beauty'',
     ''Sports & Outdoors'', ''Books & Media'', ''Toys & Games'', ''Automotive'',
     ''Food & Beverages'', ''Art & Crafts'', ''Jewelry & Accessories'', ''Pet Supplies'',
     ''Office & Business'', ''Baby & Kids'', ''Music & Instruments'', ''Other'']"


text \<open>
  The state of the page: the step shown, the values of the form (what \<open>watch()\<close> returns),
  the three flags, and the bodies of the requests sent to \<open>/api/seller/register\<close> so far.
\<close>

record page =
  currentStep :: nat
  formValues :: object
  isLoading :: bool
  error :: jsval
  success :: bool
  requests :: "jsval list"

text \<open>The \<open>defaultValues\<close> of the form.\<close>

definition defaultValues :: object where
  "defaultValues =
    [(''managesOwnShipping'', JBool True),
     (''needsShippingHelp'', JBool False),
     (''productCategories'', JArr [])]"

text \<open>
  The inputs that each step renders with \<open>register\<close>, each with the value that the
  fresh input reports: the empty string for a text box, for the text area and for the
  select (whose first option has the empty value), false for an unchecked check box.
  The check boxes of the categories are not registered: they call \<open>toggleCategory\<close>.
\<close>

definition step_inputs :: "nat \<Rightarrow> (string \<times> jsval) list" where
  "step_inputs step =
    (if step = 1 then
       [(''businessName'', JStr []), (''businessType'', JStr []),
        (''description'', JStr []), (''website'', JStr []), (''businessEmail'', JStr [])]
     else if step = 2 then
       [(''contactPersonName'', JStr []), (''phone'', JStr []),
        (''addressLine1'', JStr []), (''addressLine2'', JStr []), (''city'', JStr []),
        (''state'', JStr []), (''country'', JStr []), (''postalCode'', JStr []),
        (''facebookUrl'', JStr []), (''instagramUrl'', JStr []),
        (''linkedinUrl'', JStr []), (''twitterUrl'', JStr [])]
     else if step = 3 then
       [(''taxId'', JStr []), (''gstVatNumber'', JStr []),
        (''businessLicense'', JStr []), (''yearsInBusiness'', JStr [])]
     else if step = 4 then
       [(''bankAccountHolder'', JStr []), (''bankName'', JStr []),
        (''accountNumber'', JStr []), (''ifscSwiftCode'', JStr []),
        (''bankBranchAddress'', JStr []), (''managesOwnShipping'', JBool False),
        (''needsShippingHelp'', JBool False)]
     else if step = 5 then
       [(''termsAccepted'', JBool False)]
     else [])"

text \<open>
  An input that mounts: the form keeps a value it already holds under the name (a default
  value, or what an earlier visit of the step left there) and otherwise takes the value
  of the input. Values stay in the form when a step is left.
\<close>

definition register_input :: "object \<Rightarrow> string \<times> jsval \<Rightarrow> object" where
  "register_input vals input =
     (if get vals (fst input) = JUndefined
      then AList.update (fst input) (snd input) vals else vals)"

text \<open>Rendering the page registers the inputs of the step it shows.\<close>

definition render :: "page \<Rightarrow> page" where
  "render st =
     st\<lparr>formValues := foldl register_input (formValues st) (step_inputs (currentStep st))\<rparr>"

text \<open>The state of the page after its first rendering.\<close>

definition initial_page :: page where
  "initial_page =
     render \<lparr>currentStep = 1, formValues = defaultValues, isLoading = False,
             error = JStr [], success = False, requests = []\<rparr>"

text \<open>
  How a \<open>fetch\<close> ends: it rejects, or it resolves to a response with its \<open>ok\<close> flag and
  its body as JSON (\<open>None\<close> when the body is not JSON and \<open>response.json()\<close> throws).
\<close>

datatype fetch_result = Rejected | Resolved bool "jsval option"

text \<open>
  \<open>onSubmit\<close>. The network is a parameter. The redirect that a timer starts after a success
  is not part of the state.
\<close>

definition onSubmit :: "(jsval \<Rightarrow> fetch_result) \<Rightarrow> page \<Rightarrow> jsval \<Rightarrow> page" where
  "onSubmit network st data =
    (let st1 = st\<lparr>isLoading := True, error := JStr []\<rparr>;
         st2 = st1\<lparr>requests := requests st1 @ [data]\<rparr>;
         failed = st2\<lparr>error := JStr ''An error occurred. Please try again.''\<rparr>;
         st3 = (case network data of
                  Rejected \<Rightarrow> failed
                | Resolved ok json \<Rightarrow>
                    if ok then st2\<lparr>success := True\<rparr>
                    else (case json of
                            None \<Rightarrow> failed
                          | Some JNull \<Rightarrow> failed
                          | Some JUndefined \<Rightarrow> failed
                          | Some errorData \<Rightarrow>
                              st2\<lparr>error :=
                                (if falsy (opt_get errorData ''message'')
                                 then JStr ''Something went wrong''
                                 else opt_get errorData ''message'')\<rparr>))
     in st3\<lparr>isLoading := False\<rparr>)"

text \<open>
  The buttons under the form. "Previous" shows from the second step on, "Next" up to the
  fourth; the fifth step shows "Submit Application" instead, disabled while a request
  runs. Its handler reads the values of the form and calls \<open>onSubmit\<close> on them. A
  change of step renders the page again.
\<close>

definition click_previous :: "page \<Rightarrow> page" where
  "click_previous st =
     (if currentStep st > 1 then render (st\<lparr>currentStep := currentStep st - 1\<rparr>)
      else st)"

definition click_next :: "page \<Rightarrow> page" where
  "click_next st =
     (if currentStep st < 5 then render (st\<lparr>currentStep := currentStep st + 1\<rparr>)
      else st)"

definition click_submit :: "(jsval \<Rightarrow> fetch_result) \<Rightarrow> page \<Rightarrow> page" where
  "click_submit network st =
     (if currentStep st < 5 \<or> isLoading st then st
      else onSubmit network st (JObj (formValues st)))"

section \<open>The documents page\<close>

text \<open>
  A selected file with the three properties the page reads (\<open>name\<close>, \<open>type\<close>, \<open>size\<close>), an
  entry of \<open>uploadedFiles\<close>, and the state of the page with its message \<open>{type, text}\<close>.
\<close>

record File =
  file_name :: string
  file_type :: string
  file_size :: nat

record UploadedFile =
  doc_type :: string
  the_file :: File
  preview :: string

record documents_page =
  uploadedFiles :: "UploadedFile list"
  message_type :: string
  message_text :: string

definition allowedTypes :: "string list" where
  "allowedTypes = [''image/jpeg'', ''image/png'', ''image/jpg'', ''application/pdf'']"

text \<open>\<open>handleFileSelect\<close>; the preview URL comes from the browser.\<close>

definition handleFileSelect ::
  "(File \<Rightarrow> string) \<Rightarrow> documents_page \<Rightarrow> string \<Rightarrow> File option \<Rightarrow> documents_page" where
  "handleFileSelect createObjectURL st type selected =
    (case selected of
       None \<Rightarrow> st
     | Some f \<Rightarrow>
         if file_type f \<notin> set allowedTypes
         then st\<lparr>message_type := ''error'',
                 message_text := ''Only JPEG, PNG, and PDF files are allowed''\<rparr>
         else if file_size f > 5 * 1024 * 1024
         then st\<lparr>message_type := ''error'',
                 message_text := ''File size must be less than 5MB''\<rparr>
         else st\<lparr>uploadedFiles :=
                   filter (\<lambda>u. doc_type u \<noteq> type) (uploadedFiles st)
                   @ [\<lparr>doc_type = type, the_file = f, preview = createObjectURL f\<rparr>],
                 message_type := ''success'',
                 message_text := file_name f @ '' uploaded successfully''\<rparr>)"

section \<open>Example data\<close>

text \<open>
  Concrete inputs on which the theorems below are evaluated. The environment stands in
  for the platform on these inputs only: its URL check wants the prefix \<open>https://\<close>, its
  e-mail check wants an \<open>@\<close>, and of all strings it reads only the empty one as a number.
\<close>

definition example_env :: js_env where
  "example_env =
     \<lparr>isUrl = (\<lambda>s. take 8 s = ''https://''),
      isEmail = (\<lambda>s. CHR ''@'' \<in> set s),
      StringToNumber = (\<lambda>s. if s = [] then Fin 0 else NaN),
      ArrayToString = (\<lambda>xs. [])\<rparr>"

definition example_payload :: object where
  "example_payload =
    [(''businessName'', JStr ''Acme Traders''),
     (''businessType'', JStr ''LLC''),
     (''website'', JStr []),
     (''phone'', JStr ''+1 555-123-4567''),
     (''contactPersonName'', JStr ''Jo Doe''),
     (''addressLine1'', JStr ''1 Main Street''),
     (''city'', JStr ''Pune''),
     (''state'', JStr ''MH''),
     (''country'', JStr ''India''),
     (''postalCode'', JStr ''411001''),
     (''taxId'', JStr ''ABCDE1234F''),
     (''businessLicense'', JStr ''LIC-001''),
     (''yearsInBusiness'', JNum (Fin 0)),
     (''bankAccountHolder'', JStr ''Jo Doe''),
     (''bankName'', JStr ''State Bank''),
     (''accountNumber'', JStr ''1234567890''),
     (''ifscSwiftCode'', JStr ''SBIN0001234''),
     (''productCategories'', JArr [JStr ''Electronics'']),
     (''termsAccepted'', JBool True)]"

text \<open>What the schema of the route makes of \<open>example_payload\<close>.\<close>

definition example_data :: object where
  "example_data =
    [(''businessName'', JStr ''Acme Traders''),
     (''businessType'', JStr ''LLC''),
     (''website'', JStr []),
     (''phone'', JStr ''+1 555-123-4567''),
     (''contactPersonName'', JStr ''Jo Doe''),
     (''addressLine1'', JStr ''1 Main Street''),
     (''city'', JStr ''Pune''),
     (''state'', JStr ''MH''),
     (''country'', JStr ''India''),
     (''postalCode'', JStr ''411001''),
     (''taxId'', JStr ''ABCDE1234F''),
     (''businessLicense'', JStr ''LIC-001''),
     (''yearsInBusiness'', JNum (Fin 0)),
     (''bankAccountHolder'', JStr ''Jo Doe''),
     (''bankName'', JStr ''State Bank''),
     (''accountNumber'', JStr ''1234567890''),
     (''ifscSwiftCode'', JStr ''SBIN0001234''),
     (''productCategories'', JArr [JStr ''Electronics'']),
     (''managesOwnShipping'', JBool True),
     (''needsShippingHelp'', JBool False),
     (''termsAccepted'', JBool True)]"


definition example_other_category_payload :: object where
  "example_other_category_payload =
     AList.update ''productCategories'' (JArr [JStr ''Weapons'']) example_payload"

definition example_session :: jsval where
  "example_session = JObj [(''user'', JObj [(''id'', JStr ''u1''), (''role'', JStr ''USER'')])]"

text \<open>The values of the form at the fifth step when no input has been touched.\<close>

definition untouched_values :: object where
  "untouched_values =
    [(''managesOwnShipping'', JBool True), (''needsShippingHelp'', JBool False),
     (''productCategories'', JArr []), (''businessName'', JStr []),
     (''businessType'', JStr []), (''description'', JStr []), (''website'', JStr []),
     (''businessEmail'', JStr []), (''contactPersonName'', JStr []), (''phone'', JStr []),
     (''addressLine1'', JStr []), (''addressLine2'', JStr []), (''city'', JStr []),
     (''state'', JStr []), (''country'', JStr []), (''postalCode'', JStr []),
     (''facebookUrl'', JStr []), (''instagramUrl'', JStr []), (''linkedinUrl'', JStr []),
     (''twitterUrl'', JStr []), (''taxId'', JStr []), (''gstVatNumber'', JStr []),
     (''businessLicense'', JStr []), (''yearsInBusiness'', JStr []),
     (''bankAccountHolder'', JStr []), (''bankName'', JStr []),
     (''accountNumber'', JStr []), (''ifscSwiftCode'', JStr []),
     (''bankBranchAddress'', JStr []), (''termsAccepted'', JBool False)]"

text \<open>A session whose user has no row in the user table of the example stores.\<close>

definition example_session_unknown :: jsval where
  "example_session_unknown = JObj [(''user'', JObj [(''id'', JStr ''u3'')])]"

definition example_call :: call where
  "example_call =
     \<lparr>now = 1000,
      generated =
        [(''id'', JStr ''sp1''),
         (''averageRating'', JNum (Fin 0)),
         (''totalRatings'', JNum (Fin 0)),
         (''totalSales'', JNum (Fin 0)),
         (''createdAt'', JDate 1001),
         (''updatedAt'', JDate 1001)]\<rparr>"

text \<open>A store with two users and no profile, and the store after the first has registered.\<close>

definition example_db :: db where
  "example_db =
     \<lparr>sellerProfile = [],
      user = [[(''id'', JStr ''u1''), (''role'', JStr ''USER'')],
              [(''id'', JStr ''u2''), (''role'', JStr ''USER'')]]\<rparr>"

definition example_db_registered :: db where
  "example_db_registered =
     \<lparr>sellerProfile = [create_data (JStr ''u1'') 1000 example_data
                        @ generated example_call],
      user = [[(''id'', JStr ''u1''), (''role'', JStr ''SELLER'')],
              [(''id'', JStr ''u2''), (''role'', JStr ''USER'')]]\<rparr>"

section \<open>Parsing an object against a shape\<close>

lemma failed_keys_iff:
  "k \<in> set (failed_keys (parse_fields env shape obj)) \<longleftrightarrow>
     (\<exists>t. (k, t) \<in> set shape \<and> zparse env t (get obj k) = None)"
  by (force simp: failed_keys_def parse_fields_def)

lemma failed_keys_empty_iff:
  "failed_keys (parse_fields env shape obj) = [] \<longleftrightarrow>
     (\<forall>(k, t) \<in> set shape. zparse env t (get obj k) \<noteq> None)"
proof -
  have "set (failed_keys (parse_fields env shape obj)) =
          {k. \<exists>t. (k, t) \<in> set shape \<and> zparse env t (get obj k) = None}"
    using failed_keys_iff [of _ env shape obj] by blast
  moreover have "failed_keys (parse_fields env shape obj) = [] \<longleftrightarrow>
                   set (failed_keys (parse_fields env shape obj)) = {}"
    by simp
  ultimately show ?thesis by auto
qed

lemma safeParse_field_issue:
  assumes "(k, t) \<in> set shape" and "zparse env t (get obj k) = None"
  shows "\<exists>e. safeParse env shape (JObj obj) = Inl e \<and> formErrors e = 0
           \<and> k \<in> set (fieldErrors e)"
proof -
  have "k \<in> set (failed_keys (parse_fields env shape obj))"
    using assms failed_keys_iff by blast
  then show ?thesis
    by (auto simp: safeParse_def Let_def)
qed

lemma safeParse_not_object:
  "\<forall>obj. v \<noteq> JObj obj \<Longrightarrow>
     safeParse env shape v = Inl \<lparr>formErrors = 1, fieldErrors = []\<rparr>"
  by (cases v) (simp_all add: safeParse_def)

lemma safeParse_Inr_iff:
  "safeParse env shape v = Inr d \<longleftrightarrow>
     (\<exists>obj. v = JObj obj \<and> (\<forall>(k, t) \<in> set shape. zparse env t (get obj k) \<noteq> None)
        \<and> d = parsed_object (parse_fields env shape obj))"
proof (cases v)
  case (JObj obj)
  then show ?thesis
    using failed_keys_empty_iff [of env shape obj]
    by (auto simp: safeParse_def Let_def)
qed (simp_all add: safeParse_def)

lemma parsed_object_absent:
  "k \<notin> fst ` set shape \<Longrightarrow> map_of (parsed_object (parse_fields env shape obj)) k = None"
  by (induction shape)
     (auto simp: parsed_object_def parse_fields_def split: option.splits if_splits)

lemma get_parsed_object:
  "distinct (map fst shape) \<Longrightarrow> (k, t) \<in> set shape \<Longrightarrow>
   zparse env t (get obj k) = Some r \<Longrightarrow>
     get (parsed_object (parse_fields env shape obj)) k = r"
proof (induction shape)
  case Nil
  then show ?case by simp
next
  case (Cons a shape)
  obtain k' t' where a: "a = (k', t')" by (cases a)
  show ?case
  proof (cases "k' = k")
    case True
    then have "t' = t" using Cons.prems a by (auto simp: rev_image_eqI)
    moreover have "map_of (parsed_object (parse_fields env shape obj)) k = None"
      using Cons.prems a True by (intro parsed_object_absent) auto
    ultimately show ?thesis using Cons.prems a True
      by (auto simp: get_def parsed_object_def parse_fields_def)
  next
    case False
    then have "get (parsed_object (parse_fields env shape obj)) k = r"
      using Cons a by auto
    then show ?thesis using False a
      by (auto simp: get_def parsed_object_def parse_fields_def split: option.splits)
  qed
qed

lemma safeParse_get:
  assumes "safeParse env shape v = Inr d" and "distinct (map fst shape)"
    and "(k, t) \<in> set shape"
  shows "zparse env t (opt_get v k) = Some (get d k)"
proof -
  obtain obj where v: "v = JObj obj"
    and ok: "\<forall>(k, t) \<in> set shape. zparse env t (get obj k) \<noteq> None"
    and d: "d = parsed_object (parse_fields env shape obj)"
    using assms(1) safeParse_Inr_iff by blast
  obtain r where r: "zparse env t (get obj k) = Some r"
    using ok assms(3) by fastforce
  then have "get d k = r"
    using get_parsed_object [OF assms(2,3)] d by simp
  then show ?thesis using r v by (simp add: opt_get_def)
qed

section \<open>The branches of the registration endpoint\<close>

lemma get_create_data_userId: "get (create_data uid t d @ g) ''userId'' = uid"
  by (simp add: create_data_def get_def)

lemma POST_unauthenticated:
  "falsy (session_user_id (session req)) \<Longrightarrow>
     POST env c st req = (message_response 401 ''Authentication required'', st)"
  by (simp add: POST_def)

lemma POST_bad_body:
  "\<not> falsy (session_user_id (session req)) \<Longrightarrow> body req = None \<Longrightarrow>
     POST env c st req = (message_response 500 ''Internal server error'', st)"
  by (simp add: POST_def)

lemma POST_invalid:
  "\<not> falsy (session_user_id (session req)) \<Longrightarrow> body req = Some b \<Longrightarrow>
   safeParse env route_sellerRegistrationSchema b = Inl e \<Longrightarrow>
     POST env c st req =
       (\<lparr>status = 400, message = Some ''Invalid input'', errors = Some e, seller = None\<rparr>, st)"
  by (simp add: POST_def)

lemma POST_conflict:
  "\<not> falsy (session_user_id (session req)) \<Longrightarrow> body req = Some b \<Longrightarrow>
   safeParse env route_sellerRegistrationSchema b = Inr d \<Longrightarrow>
   sellerProfile_findUnique st (session_user_id (session req)) = Some p \<Longrightarrow>
     POST env c st req = (message_response 409 ''You already have a seller profile'', st)"
  by (simp add: POST_def)

lemma sellerProfile_create_fresh:
  "sellerProfile_findUnique st uid = None \<Longrightarrow>
     sellerProfile_create g st (create_data uid t d) cols =
       Inr (select cols (create_data uid t d @ g),
            st\<lparr>sellerProfile := sellerProfile st @ [create_data uid t d @ g]\<rparr>)"
  using get_create_data_userId [of uid t d "[]"]
  by (simp add: sellerProfile_create_def sellerProfile_findUnique_def Let_def)

lemma user_update_sellerProfile:
  "db_user_update st uid data = Inr st' \<Longrightarrow> sellerProfile st' = sellerProfile st"
  by (auto simp: db_user_update_def split: option.splits)

lemma POST_new_rows:
  assumes "\<not> falsy (session_user_id (session req))" and "body req = Some b"
    and "safeParse env route_sellerRegistrationSchema b = Inr d"
    and "sellerProfile_findUnique st (session_user_id (session req)) = None"
  shows "sellerProfile (snd (POST env c st req)) =
           sellerProfile st
           @ [create_data (session_user_id (session req)) (now c) d @ generated c]"
  using assms
  by (auto simp: POST_def Let_def sellerProfile_create_fresh
           dest: user_update_sellerProfile split: sum.splits)

section \<open>The category toggle\<close>






section \<open>The file check of the documents page\<close>

text \<open>
  C7. A selected file is accepted exactly when its type is one of the JPEG, PNG and PDF
  media types and its size is at most 5 MiB: then it becomes the entry of its document
  type and the message reports success. Any other file leaves the uploaded files as they
  were and sets an error message. A file of the \<open>.docx\<close> media type is rejected at every
  size.
\<close>

theorem handleFileSelect_accepts:
  "(message_type (handleFileSelect url st type (Some f)) = ''success''
      \<longleftrightarrow> file_type f \<in> {''image/jpeg'', ''image/jpg'', ''image/png'', ''application/pdf''}
            \<and> file_size f \<le> 5 * 1024 * 1024)
   \<and> (file_type f \<in> {''image/jpeg'', ''image/jpg'', ''image/png'', ''application/pdf''}
        \<and> file_size f \<le> 5 * 1024 * 1024
      \<longrightarrow> uploadedFiles (handleFileSelect url st type (Some f)) =
            filter (\<lambda>u. doc_type u \<noteq> type) (uploadedFiles st)
            @ [\<lparr>doc_type = type, the_file = f, preview = url f\<rparr>])
   \<and> (\<not> (file_type f \<in> {''image/jpeg'', ''image/jpg'', ''image/png'', ''application/pdf''}
           \<and> file_size f \<le> 5 * 1024 * 1024)
      \<longrightarrow> uploadedFiles (handleFileSelect url st type (Some f)) = uploadedFiles st
          \<and> message_type (handleFileSelect url st type (Some f)) = ''error''
          \<and> message_text (handleFileSelect url st type (Some f)) \<noteq> [])
   \<and> (file_type f =
         ''application/vnd.openxmlformats-officedocument.wordprocessingml.document''
      \<longrightarrow> uploadedFiles (handleFileSelect url st type (Some f)) = uploadedFiles st
          \<and> message_type (handleFileSelect url st type (Some f)) = ''error'')"
  by (auto simp: handleFileSelect_def allowedTypes_def)

theorem handleFileSelect_accepts_witness:
  "message_type (handleFileSelect (\<lambda>f. ''blob:1'') \<lparr>uploadedFiles = [], message_type = [],
       message_text = []\<rparr> ''ID_FRONT''
       (Some \<lparr>file_name = ''id.png'', file_type = ''image/png'',
              file_size = 6 * 1024 * 1024\<rparr>)) = ''error''
   \<and> uploadedFiles (handleFileSelect (\<lambda>f. ''blob:1'') \<lparr>uploadedFiles = [],
       message_type = [], message_text = []\<rparr> ''ID_FRONT''
       (Some \<lparr>file_name = ''id.png'', file_type = ''image/png'',
              file_size = 6 * 1024 * 1024\<rparr>)) = []
   \<and> uploadedFiles (handleFileSelect (\<lambda>f. ''blob:1'') \<lparr>uploadedFiles = [],
       message_type = [], message_text = []\<rparr> ''ID_FRONT''
       (Some \<lparr>file_name = ''id.pdf'', file_type = ''application/pdf'',
              file_size = 4 * 1024 * 1024\<rparr>))
       = [\<lparr>doc_type = ''ID_FRONT'',
           the_file = \<lparr>file_name = ''id.pdf'', file_type = ''application/pdf'',
                       file_size = 4 * 1024 * 1024\<rparr>,
           preview = ''blob:1''\<rparr>]
   \<and> uploadedFiles (handleFileSelect (\<lambda>f. ''blob:1'') \<lparr>uploadedFiles = [],
       message_type = [], message_text = []\<rparr> ''ID_FRONT''
       (Some \<lparr>file_name = ''id.docx'',
              file_type =
                ''application/vnd.openxmlformats-officedocument.wordprocessingml.document'',
              file_size = 1\<rparr>)) = []"
proof -
  let ?st = "\<lparr>uploadedFiles = [], message_type = [], message_text = []\<rparr>"
  let ?png = "\<lparr>file_name = ''id.png'', file_type = ''image/png'',
                file_size = 6 * 1024 * 1024\<rparr>"
  let ?pdf = "\<lparr>file_name = ''id.pdf'', file_type = ''application/pdf'',
                file_size = 4 * 1024 * 1024\<rparr>"
  let ?docx = "\<lparr>file_name = ''id.docx'',
                 file_type =
                   ''application/vnd.openxmlformats-officedocument.wordprocessingml.document'',
                 file_size = 1\<rparr>"
  have png: "\<not> (file_type ?png \<in> {''image/jpeg'', ''image/jpg'', ''image/png'',
                    ''application/pdf''} \<and> file_size ?png \<le> 5 * 1024 * 1024)"
    by simp
  have pdf: "file_type ?pdf \<in> {''image/jpeg'', ''image/jpg'', ''image/png'',
                ''application/pdf''} \<and> file_size ?pdf \<le> 5 * 1024 * 1024"
    by simp
  have docx: "file_type ?docx =
      ''application/vnd.openxmlformats-officedocument.wordprocessingml.document''"
    by simp
  show ?thesis
    using png pdf docx
      handleFileSelect_accepts [of "\<lambda>f. ''blob:1''" ?st "''ID_FRONT''" ?png]
      handleFileSelect_accepts [of "\<lambda>f. ''blob:1''" ?st "''ID_FRONT''" ?pdf]
      handleFileSelect_accepts [of "\<lambda>f. ''blob:1''" ?st "''ID_FRONT''" ?docx]
    by simp
qed

section \<open>The profile query endpoint\<close>

text \<open>
  C9. Without an authenticated identity the profile query answers 401; for an identity
  without a stored profile it answers 404; otherwise it answers 200 with the projection
  of the profile on id, businessName, businessType, description, website, phone,
  verificationStatus, averageRating, totalRatings, totalSales, createdAt and updatedAt.
  In every case the store is the one it was called on.
\<close>

theorem GET_profile_query:
  "(falsy (session_user_id sess) \<longrightarrow>
      fst (GET st sess) =
        \<lparr>status = 401, message = Some ''Authentication required'', errors = None,
         seller = None\<rparr>)
   \<and> (\<not> falsy (session_user_id sess)
        \<and> sellerProfile_findUnique st (session_user_id sess) = None \<longrightarrow>
      fst (GET st sess) =
        \<lparr>status = 404, message = Some ''Seller profile not found'', errors = None,
         seller = None\<rparr>)
   \<and> (\<forall>row. \<not> falsy (session_user_id sess)
        \<and> sellerProfile_findUnique st (session_user_id sess) = Some row \<longrightarrow>
      fst (GET st sess) =
        \<lparr>status = 200, message = None, errors = None,
         seller = Some
           [(''id'', get row ''id''),
            (''businessName'', get row ''businessName''),
            (''businessType'', get row ''businessType''),
            (''description'', get row ''description''),
            (''website'', get row ''website''),
            (''phone'', get row ''phone''),
            (''verificationStatus'', get row ''verificationStatus''),
            (''averageRating'', get row ''averageRating''),
            (''totalRatings'', get row ''totalRatings''),
            (''totalSales'', get row ''totalSales''),
            (''createdAt'', get row ''createdAt''),
            (''updatedAt'', get row ''updatedAt'')]\<rparr>)
   \<and> snd (GET st sess) = st"
  by (simp add: GET_def Let_def message_response_def select_def split: option.splits)

lemma example_session_user_id: "session_user_id example_session = JStr ''u1''"
  by (simp add: session_user_id_def example_session_def opt_get_def get_def)

lemma example_db_registered_u1:
  "sellerProfile_findUnique example_db_registered (JStr ''u1'') =
     Some (create_data (JStr ''u1'') 1000 example_data @ generated example_call)"
  by (simp add: sellerProfile_findUnique_def example_db_registered_def get_create_data_userId)

theorem GET_profile_query_witness:
  "status (fst (GET example_db_registered JNull)) = 401
   \<and> status (fst (GET example_db_registered
                  (JObj [(''user'', JObj [(''id'', JStr ''u2'')])]))) = 404
   \<and> fst (GET example_db_registered example_session) =
        \<lparr>status = 200, message = None, errors = None,
         seller = Some
           [(''id'', JStr ''sp1''),
            (''businessName'', JStr ''Acme Traders''),
            (''businessType'', JStr ''LLC''),
            (''description'', JNull),
            (''website'', JNull),
            (''phone'', JStr ''+1 555-123-4567''),
            (''verificationStatus'', JStr ''PENDING''),
            (''averageRating'', JNum (Fin 0)),
            (''totalRatings'', JNum (Fin 0)),
            (''totalSales'', JNum (Fin 0)),
            (''createdAt'', JDate 1001),
            (''updatedAt'', JDate 1001)]\<rparr>
   \<and> snd (GET example_db_registered example_session) = example_db_registered"
proof -
  let ?u2 = "JObj [(''user'', JObj [(''id'', JStr ''u2'')])]"
  let ?row = "create_data (JStr ''u1'') 1000 example_data @ generated example_call"
  have none: "falsy (session_user_id JNull)"
    by (simp add: session_user_id_def opt_get_def)
  have u2: "\<not> falsy (session_user_id ?u2)
            \<and> sellerProfile_findUnique example_db_registered (session_user_id ?u2) = None"
  proof -
    have "session_user_id ?u2 = JStr ''u2''"
      by (simp add: session_user_id_def opt_get_def get_def)
    then show ?thesis
      by (simp add: sellerProfile_findUnique_def example_db_registered_def
            get_create_data_userId)
  qed
  have u1: "\<not> falsy (session_user_id example_session)
            \<and> sellerProfile_findUnique example_db_registered
                 (session_user_id example_session) = Some ?row"
    by (simp add: example_session_user_id example_db_registered_u1)
  have cols: "get ?row ''id'' = JStr ''sp1''"
    "get ?row ''businessName'' = JStr ''Acme Traders''"
    "get ?row ''businessType'' = JStr ''LLC''"
    "get ?row ''description'' = JNull"
    "get ?row ''website'' = JNull"
    "get ?row ''phone'' = JStr ''+1 555-123-4567''"
    "get ?row ''verificationStatus'' = JStr ''PENDING''"
    "get ?row ''averageRating'' = JNum (Fin 0)"
    "get ?row ''totalRatings'' = JNum (Fin 0)"
    "get ?row ''totalSales'' = JNum (Fin 0)"
    "get ?row ''createdAt'' = JDate 1001"
    "get ?row ''updatedAt'' = JDate 1001"
    by code_simp+
  from GET_profile_query [of JNull example_db_registered] none
  have a: "status (fst (GET example_db_registered JNull)) = 401" by simp
  from GET_profile_query [of ?u2 example_db_registered] u2
  have b: "status (fst (GET example_db_registered ?u2)) = 404" by simp
  from GET_profile_query [of example_session example_db_registered] u1
  have c: "fst (GET example_db_registered example_session) =
        \<lparr>status = 200, message = None, errors = None,
         seller = Some
           [(''id'', get ?row ''id''),
            (''businessName'', get ?row ''businessName''),
            (''businessType'', get ?row ''businessType''),
            (''description'', get ?row ''description''),
            (''website'', get ?row ''website''),
            (''phone'', get ?row ''phone''),
            (''verificationStatus'', get ?row ''verificationStatus''),
            (''averageRating'', get ?row ''averageRating''),
            (''totalRatings'', get ?row ''totalRatings''),
            (''totalSales'', get ?row ''totalSales''),
            (''createdAt'', get ?row ''createdAt''),
            (''updatedAt'', get ?row ''updatedAt'')]\<rparr>"
    and d: "snd (GET example_db_registered example_session) = example_db_registered"
    by blast+
  show ?thesis using a b c d by (simp only: cols)
qed

section \<open>Required fields\<close>

lemma route_keys_distinct: "distinct (map fst route_sellerRegistrationSchema)"
  by (simp add: route_sellerRegistrationSchema_def)

lemma route_required_undefined:
  assumes "k \<in> set [''businessName'', ''businessType'', ''phone'', ''contactPersonName'',
      ''addressLine1'', ''city'', ''state'', ''country'', ''postalCode'', ''taxId'',
      ''businessLicense'', ''bankAccountHolder'', ''bankName'', ''accountNumber'',
      ''ifscSwiftCode'', ''productCategories'', ''termsAccepted'']"
  shows "\<exists>t. (k, t) \<in> set route_sellerRegistrationSchema \<and> zparse env t JUndefined = None"
proof -
  have "list_all (\<lambda>k. \<exists>t. (k, t) \<in> set route_sellerRegistrationSchema
                         \<and> zparse env t JUndefined = None)
      [''businessName'', ''businessType'', ''phone'', ''contactPersonName'',
      ''addressLine1'', ''city'', ''state'', ''country'', ''postalCode'', ''taxId'',
      ''businessLicense'', ''bankAccountHolder'', ''bankName'', ''accountNumber'',
      ''ifscSwiftCode'', ''productCategories'', ''termsAccepted'']"
    by (simp add: route_sellerRegistrationSchema_def)
  then show ?thesis using assms unfolding list_all_iff by blast
qed

lemma route_productCategories:
  "(''productCategories'', ZArrayMin (ZString []) 1) \<in> set route_sellerRegistrationSchema"
  by (simp add: route_sellerRegistrationSchema_def)

lemma route_termsAccepted:
  "(''termsAccepted'', ZRefine ZBoolean (\<lambda>val. val = JBool True))
     \<in> set route_sellerRegistrationSchema"
  by (simp add: route_sellerRegistrationSchema_def)

lemma zparse_termsAccepted:
  "zparse env (ZRefine ZBoolean (\<lambda>val. val = JBool True)) v =
     (if v = JBool True then Some (JBool True) else None)"
  by (cases v) auto

lemma route_required_issue:
  assumes "k \<in> set [''businessName'', ''businessType'', ''phone'', ''contactPersonName'',
      ''addressLine1'', ''city'', ''state'', ''country'', ''postalCode'', ''taxId'',
      ''businessLicense'', ''bankAccountHolder'', ''bankName'', ''accountNumber'',
      ''ifscSwiftCode'', ''productCategories'', ''termsAccepted'']"
    and "v = JUndefined \<or> (k = ''productCategories'' \<and> v = JArr [])
         \<or> (k = ''termsAccepted'' \<and> v \<noteq> JBool True)"
  shows "\<exists>t. (k, t) \<in> set route_sellerRegistrationSchema \<and> zparse env t v = None"
  using assms(2)
proof (elim disjE conjE)
  assume "v = JUndefined"
  then show ?thesis using route_required_undefined [OF assms(1)] by simp
next
  assume "k = ''productCategories''" and "v = JArr []"
  then show ?thesis using route_productCategories by (intro exI conjI) auto
next
  assume "k = ''termsAccepted''" and "v \<noteq> JBool True"
  then show ?thesis
    using route_termsAccepted zparse_termsAccepted by (intro exI conjI) auto
qed

text \<open>
  C2. An authenticated request whose JSON payload lacks one of the required fields (or has
  an empty productCategories array, or a termsAccepted other than true) is answered with
  400 and the flattened error, and the store is left as it was. When the payload is an
  object, the error names the field; when it is not, the error is on the payload as a
  whole.
\<close>

theorem POST_missing_required_field:
  assumes "\<not> falsy (session_user_id (session req))"
    and "body req = Some b"
    and "k \<in> set [''businessName'', ''businessType'', ''phone'', ''contactPersonName'',
      ''addressLine1'', ''city'', ''state'', ''country'', ''postalCode'', ''taxId'',
      ''businessLicense'', ''bankAccountHolder'', ''bankName'', ''accountNumber'',
      ''ifscSwiftCode'', ''productCategories'', ''termsAccepted'']"
    and "opt_get b k = JUndefined \<or> (k = ''productCategories'' \<and> opt_get b k = JArr [])
         \<or> (k = ''termsAccepted'' \<and> opt_get b k \<noteq> JBool True)"
  shows "\<exists>e. POST env c st req =
             (\<lparr>status = 400, message = Some ''Invalid input'', errors = Some e,
               seller = None\<rparr>, st)
           \<and> ((\<exists>obj. b = JObj obj) \<longrightarrow> formErrors e = 0 \<and> k \<in> set (fieldErrors e))
           \<and> ((\<forall>obj. b \<noteq> JObj obj) \<longrightarrow> formErrors e = 1 \<and> fieldErrors e = [])"
proof (cases "\<exists>obj. b = JObj obj")
  case True
  then obtain obj where b: "b = JObj obj" by blast
  obtain t where t: "(k, t) \<in> set route_sellerRegistrationSchema"
      "zparse env t (get obj k) = None"
    using route_required_issue [OF assms(3), of "opt_get b k" env] assms(4) b
    by (auto simp: opt_get_def)
  obtain e where e: "safeParse env route_sellerRegistrationSchema (JObj obj) = Inl e"
      "formErrors e = 0" "k \<in> set (fieldErrors e)"
    using safeParse_field_issue [OF t] by blast
  show ?thesis
    using POST_invalid [OF assms(1,2), of env e c st] e b by auto
next
  case False
  then have "safeParse env route_sellerRegistrationSchema b =
               Inl \<lparr>formErrors = 1, fieldErrors = []\<rparr>"
    by (intro safeParse_not_object) simp
  then show ?thesis
    using POST_invalid [OF assms(1,2), of env _ c st] False by auto
qed

theorem POST_missing_required_field_witness:
  "\<exists>e. POST example_env example_call example_db
          \<lparr>session = example_session,
           body = Some (JObj [(''businessName'', JStr ''Acme Traders'')])\<rparr> =
          (\<lparr>status = 400, message = Some ''Invalid input'', errors = Some e,
            seller = None\<rparr>, example_db)
        \<and> ''taxId'' \<in> set (fieldErrors e)"
proof -
  let ?req = "\<lparr>session = example_session,
                body = Some (JObj [(''businessName'', JStr ''Acme Traders'')])\<rparr>"
  have auth: "\<not> falsy (session_user_id (session ?req))"
    by (simp add: example_session_user_id)
  have body: "body ?req = Some (JObj [(''businessName'', JStr ''Acme Traders'')])"
    by simp
  have key: "''taxId'' \<in> set [''businessName'', ''businessType'', ''phone'',
      ''contactPersonName'', ''addressLine1'', ''city'', ''state'', ''country'',
      ''postalCode'', ''taxId'', ''businessLicense'', ''bankAccountHolder'', ''bankName'',
      ''accountNumber'', ''ifscSwiftCode'', ''productCategories'', ''termsAccepted'']"
    by simp
  have missing: "opt_get (JObj [(''businessName'', JStr ''Acme Traders'')]) ''taxId''
                   = JUndefined
      \<or> (''taxId'' = ''productCategories''
          \<and> opt_get (JObj [(''businessName'', JStr ''Acme Traders'')]) ''taxId'' = JArr [])
      \<or> (''taxId'' = ''termsAccepted''
          \<and> opt_get (JObj [(''businessName'', JStr ''Acme Traders'')]) ''taxId''
              \<noteq> JBool True)"
    by (simp add: opt_get_def get_def)
  show ?thesis
    using POST_missing_required_field [OF auth body key missing,
            of example_env example_call example_db]
    by blast
qed

section \<open>One profile per identity\<close>

lemma findUnique_None_iff:
  "sellerProfile_findUnique st uid = None \<longleftrightarrow>
     filter (\<lambda>row. get row ''userId'' = uid) (sellerProfile st) = []"
  by (auto simp: sellerProfile_findUnique_def find_None_iff filter_empty_conv)

lemma POST_sellerProfile_cases:
  "sellerProfile (snd (POST env c st req)) = sellerProfile st
   \<or> (sellerProfile_findUnique st (session_user_id (session req)) = None
      \<and> (\<exists>row. get row ''userId'' = session_user_id (session req)
            \<and> sellerProfile (snd (POST env c st req)) = sellerProfile st @ [row]))"
proof (cases "falsy (session_user_id (session req))")
  case True
  then show ?thesis by (simp add: POST_unauthenticated)
next
  case auth: False
  show ?thesis
  proof (cases "body req")
    case None
    then show ?thesis using auth by (simp add: POST_bad_body)
  next
    case (Some b)
    show ?thesis
    proof (cases "safeParse env route_sellerRegistrationSchema b")
      case (Inl e)
      then show ?thesis using auth Some by (simp add: POST_invalid)
    next
      case (Inr d)
      show ?thesis
      proof (cases "sellerProfile_findUnique st (session_user_id (session req))")
        case None
        then show ?thesis
          using POST_new_rows [OF auth Some Inr None, of c] get_create_data_userId
          by blast
      next
        case (Some p)
        then show ?thesis using auth \<open>body req = Some b\<close> Inr by (simp add: POST_conflict)
      qed
    qed
  qed
qed

lemma POST_keeps_profiles:
  assumes "sellerProfile_findUnique st uid \<noteq> None"
  shows "filter (\<lambda>row. get row ''userId'' = uid) (sellerProfile (snd (POST env c st req)))
           = filter (\<lambda>row. get row ''userId'' = uid) (sellerProfile st)"
  using POST_sellerProfile_cases [of env c st req] assms by auto

lemma POST_all_keeps_profiles:
  "sellerProfile_findUnique st uid \<noteq> None \<Longrightarrow>
     filter (\<lambda>row. get row ''userId'' = uid) (sellerProfile (POST_all env st calls))
       = filter (\<lambda>row. get row ''userId'' = uid) (sellerProfile st)"
proof (induction calls arbitrary: st)
  case Nil
  then show ?case by simp
next
  case (Cons a calls)
  obtain c req where a: "a = (c, req)" by (cases a)
  have keep: "filter (\<lambda>row. get row ''userId'' = uid)
                  (sellerProfile (snd (POST env c st req)))
                = filter (\<lambda>row. get row ''userId'' = uid) (sellerProfile st)"
    using Cons.prems by (rule POST_keeps_profiles)
  then have "sellerProfile_findUnique (snd (POST env c st req)) uid \<noteq> None"
    using Cons.prems by (simp add: findUnique_None_iff)
  then show ?case using Cons.IH keep a by simp
qed

lemma POST_keeps_unique:
  assumes "distinct (map (\<lambda>row. get row ''userId'') (sellerProfile st))"
  shows "distinct (map (\<lambda>row. get row ''userId'') (sellerProfile (snd (POST env c st req))))"
proof -
  have fresh: "sellerProfile_findUnique st uid = None \<Longrightarrow>
                 uid \<notin> set (map (\<lambda>row. get row ''userId'') (sellerProfile st))" for uid
    by (auto simp: sellerProfile_findUnique_def find_None_iff)
  show ?thesis
    using POST_sellerProfile_cases [of env c st req] assms fresh by auto
qed

lemma POST_all_keeps_unique:
  "distinct (map (\<lambda>row. get row ''userId'') (sellerProfile st)) \<Longrightarrow>
     distinct (map (\<lambda>row. get row ''userId'') (sellerProfile (POST_all env st calls)))"
proof (induction calls arbitrary: st)
  case Nil
  then show ?case by simp
next
  case (Cons a calls)
  obtain c req where a: "a = (c, req)" by (cases a)
  show ?case using Cons.IH [OF POST_keeps_unique [OF Cons.prems]] a by simp
qed

lemma distinct_filter_le_one:
  "distinct (map f xs) \<Longrightarrow> length (filter (\<lambda>x. f x = a) xs) \<le> 1"
  by (induction xs) (auto simp: filter_empty_conv image_iff)

text \<open>
  C1, as the code has it. The route validates the payload before it looks for an existing
  profile. For an authenticated identity that has a profile, a call leaves the store as
  it was; it answers 409 when the payload passes validation, 400 when it does not and 500
  when the body is not JSON. The profiles of that identity are the same after any sequence
  of registration calls, and a store with at most one profile for each identity has
  exactly one for this identity after any such sequence.
\<close>

theorem POST_one_profile_per_identity:
  assumes "\<not> falsy (session_user_id (session req))"
    and "sellerProfile_findUnique st (session_user_id (session req)) \<noteq> None"
  shows "snd (POST env c st req) = st
    \<and> (\<forall>b d. body req = Some b \<and> safeParse env route_sellerRegistrationSchema b = Inr d
          \<longrightarrow> fst (POST env c st req) =
                \<lparr>status = 409, message = Some ''You already have a seller profile'',
                 errors = None, seller = None\<rparr>)
    \<and> (\<forall>b e. body req = Some b \<and> safeParse env route_sellerRegistrationSchema b = Inl e
          \<longrightarrow> status (fst (POST env c st req)) = 400)
    \<and> (body req = None \<longrightarrow> status (fst (POST env c st req)) = 500)
    \<and> filter (\<lambda>row. get row ''userId'' = session_user_id (session req))
         (sellerProfile (POST_all env st calls))
       = filter (\<lambda>row. get row ''userId'' = session_user_id (session req))
           (sellerProfile st)
    \<and> (distinct (map (\<lambda>row. get row ''userId'') (sellerProfile st)) \<longrightarrow>
         distinct (map (\<lambda>row. get row ''userId'') (sellerProfile (POST_all env st calls)))
         \<and> length (filter (\<lambda>row. get row ''userId'' = session_user_id (session req))
                     (sellerProfile (POST_all env st calls))) = 1)"
proof -
  let ?uid = "session_user_id (session req)"
  obtain p where p: "sellerProfile_findUnique st ?uid = Some p"
    using assms(2) by blast
  have unchanged: "snd (POST env c st req) = st"
  proof (cases "body req")
    case None
    then show ?thesis using assms(1) by (simp add: POST_bad_body)
  next
    case (Some b)
    then show ?thesis
      using assms(1) p
      by (cases "safeParse env route_sellerRegistrationSchema b")
         (simp_all add: POST_invalid POST_conflict)
  qed
  have conflict: "\<forall>b d. body req = Some b
      \<and> safeParse env route_sellerRegistrationSchema b = Inr d
      \<longrightarrow> fst (POST env c st req) =
            \<lparr>status = 409, message = Some ''You already have a seller profile'',
             errors = None, seller = None\<rparr>"
    using assms(1) p by (auto simp: POST_conflict message_response_def)
  have invalid: "\<forall>b e. body req = Some b
      \<and> safeParse env route_sellerRegistrationSchema b = Inl e
      \<longrightarrow> status (fst (POST env c st req)) = 400"
    using assms(1) by (auto simp: POST_invalid)
  have bad: "body req = None \<longrightarrow> status (fst (POST env c st req)) = 500"
    using assms(1) by (auto simp: POST_bad_body message_response_def)
  have keep: "filter (\<lambda>row. get row ''userId'' = ?uid) (sellerProfile (POST_all env st calls))
                = filter (\<lambda>row. get row ''userId'' = ?uid) (sellerProfile st)"
    using assms(2) by (rule POST_all_keeps_profiles)
  have one: "distinct (map (\<lambda>row. get row ''userId'') (sellerProfile st)) \<longrightarrow>
         distinct (map (\<lambda>row. get row ''userId'') (sellerProfile (POST_all env st calls)))
         \<and> length (filter (\<lambda>row. get row ''userId'' = ?uid)
                     (sellerProfile (POST_all env st calls))) = 1"
  proof
    assume d: "distinct (map (\<lambda>row. get row ''userId'') (sellerProfile st))"
    have "length (filter (\<lambda>row. get row ''userId'' = ?uid) (sellerProfile st)) \<le> 1"
      using d by (rule distinct_filter_le_one)
    moreover have "filter (\<lambda>row. get row ''userId'' = ?uid) (sellerProfile st) \<noteq> []"
      using assms(2) by (simp add: findUnique_None_iff)
    ultimately have "length (filter (\<lambda>row. get row ''userId'' = ?uid) (sellerProfile st)) = 1"
      by (cases "filter (\<lambda>row. get row ''userId'' = ?uid) (sellerProfile st)") auto
    then show "distinct (map (\<lambda>row. get row ''userId'')
                   (sellerProfile (POST_all env st calls)))
         \<and> length (filter (\<lambda>row. get row ''userId'' = ?uid)
                     (sellerProfile (POST_all env st calls))) = 1"
      using keep POST_all_keeps_unique [OF d] by simp
  qed
  show ?thesis using unchanged conflict invalid bad keep one by blast
qed

lemma example_payload_valid:
  "safeParse example_env route_sellerRegistrationSchema (JObj example_payload)
     = Inr example_data"
  by code_simp

theorem POST_one_profile_per_identity_witness:
  "snd (POST example_env example_call example_db_registered
          \<lparr>session = example_session, body = Some (JObj example_payload)\<rparr>)
     = example_db_registered
   \<and> fst (POST example_env example_call example_db_registered
          \<lparr>session = example_session, body = Some (JObj example_payload)\<rparr>)
     = \<lparr>status = 409, message = Some ''You already have a seller profile'',
        errors = None, seller = None\<rparr>
   \<and> length (filter (\<lambda>row. get row ''userId'' = JStr ''u1'')
         (sellerProfile (POST_all example_env example_db_registered
            [(example_call, \<lparr>session = example_session,
                              body = Some (JObj example_payload)\<rparr>),
             (example_call, \<lparr>session = example_session, body = Some (JObj [])\<rparr>)])))
     = 1"
proof -
  let ?req = "\<lparr>session = example_session, body = Some (JObj example_payload)\<rparr>"
  let ?calls = "[(example_call, ?req),
                 (example_call, \<lparr>session = example_session, body = Some (JObj [])\<rparr>)]"
  have uid: "session_user_id (session ?req) = JStr ''u1''"
    by (simp add: example_session_user_id)
  have auth: "\<not> falsy (session_user_id (session ?req))"
    by (simp add: example_session_user_id)
  have has: "sellerProfile_findUnique example_db_registered (session_user_id (session ?req))
               \<noteq> None"
    by (simp add: example_session_user_id example_db_registered_u1)
  have body: "body ?req = Some (JObj example_payload)
      \<and> safeParse example_env route_sellerRegistrationSchema (JObj example_payload)
          = Inr example_data"
    by (simp add: example_payload_valid)
  have uniq: "distinct (map (\<lambda>row. get row ''userId'')
                (sellerProfile example_db_registered))"
    by (simp add: example_db_registered_def)
  note main = POST_one_profile_per_identity [OF auth has, of example_env example_call ?calls]
  have a: "snd (POST example_env example_call example_db_registered ?req)
             = example_db_registered"
    using main by blast
  have b: "fst (POST example_env example_call example_db_registered ?req)
             = \<lparr>status = 409, message = Some ''You already have a seller profile'',
                errors = None, seller = None\<rparr>"
    using main body by blast
  have c: "length (filter (\<lambda>row. get row ''userId'' = session_user_id (session ?req))
                     (sellerProfile (POST_all example_env example_db_registered ?calls))) = 1"
    using main uniq by blast
  show ?thesis using a b c unfolding uid by blast
qed

text \<open>
  C1 as it is stated fails: an identity that has a profile and sends a payload that does
  not pass validation gets 400, not 409.
\<close>

theorem POST_existing_profile_invalid_payload:
  "\<not> falsy (session_user_id example_session)
   \<and> sellerProfile_findUnique example_db_registered (session_user_id example_session)
       \<noteq> None
   \<and> status (fst (POST example_env example_call example_db_registered
                  \<lparr>session = example_session, body = Some (JObj [])\<rparr>)) = 400"
proof -
  let ?req = "\<lparr>session = example_session, body = Some (JObj [])\<rparr>"
  have auth: "\<not> falsy (session_user_id (session ?req))"
    by (simp add: example_session_user_id)
  have body: "body ?req = Some (JObj [])" by simp
  obtain t where "(''businessName'', t) \<in> set route_sellerRegistrationSchema"
      "zparse example_env t (get [] ''businessName'') = None"
    using route_required_undefined [of "''businessName''" example_env]
    by (auto simp: get_def)
  then obtain e where "safeParse example_env route_sellerRegistrationSchema (JObj []) = Inl e"
    using safeParse_field_issue by blast
  then have "status (fst (POST example_env example_call example_db_registered ?req)) = 400"
    using POST_invalid [OF auth body] by simp
  then show ?thesis
    by (simp add: example_session_user_id example_db_registered_u1)
qed

section \<open>A successful registration\<close>

lemma get_append:
  "get (xs @ ys) k = (if k \<in> fst ` set xs then get xs k else get ys k)"
proof -
  have "k \<in> fst ` set xs \<longleftrightarrow> map_of xs k \<noteq> None"
    by (simp add: map_of_eq_None_iff)
  then show ?thesis
    by (auto simp: get_def map_add_def split: option.splits)
qed

lemma create_data_keys:
  "map fst (create_data uid t d) =
     [''userId'', ''businessName'', ''businessType'', ''description'', ''website'', ''phone'',
      ''businessEmail'', ''contactPersonName'', ''addressLine1'', ''addressLine2'', ''city'',
      ''state'', ''country'', ''postalCode'', ''taxId'', ''gstVatNumber'',
      ''businessLicense'', ''yearsInBusiness'', ''facebookUrl'', ''instagramUrl'',
      ''linkedinUrl'', ''twitterUrl'', ''bankAccountHolder'', ''bankName'',
      ''accountNumber'', ''ifscSwiftCode'', ''bankBranchAddress'', ''productCategories'',
      ''managesOwnShipping'', ''needsShippingHelp'', ''termsAccepted'', ''termsAcceptedAt'',
      ''verificationStatus'']"
  by (simp add: create_data_def)

lemma get_create_data_generated:
  "k \<notin> set (map fst (create_data uid t d)) \<Longrightarrow> get (create_data uid t d @ g) k = get g k"
  by (simp add: get_append)

lemma get_create_data_own:
  "k \<in> set (map fst (create_data uid t d)) \<Longrightarrow>
     get (create_data uid t d @ g) k = get (create_data uid t d) k"
  by (simp add: get_append)

lemma create_data_projection:
  "select [''id'', ''businessName'', ''businessType'', ''verificationStatus'', ''createdAt'']
     (create_data uid t d @ g) =
   [(''id'', get g ''id''),
    (''businessName'', get d ''businessName''),
    (''businessType'', get d ''businessType''),
    (''verificationStatus'', JStr ''PENDING''),
    (''createdAt'', get g ''createdAt'')]"
proof -
  have "get (create_data uid t d @ g) ''id'' = get g ''id''"
    "get (create_data uid t d @ g) ''createdAt'' = get g ''createdAt''"
    by (rule get_create_data_generated, simp add: create_data_keys)+
  moreover have "get (create_data uid t d @ g) ''businessName'' = get d ''businessName''"
    "get (create_data uid t d @ g) ''businessType'' = get d ''businessType''"
    "get (create_data uid t d @ g) ''verificationStatus'' = JStr ''PENDING''"
    by (simp_all add: get_create_data_own create_data_keys)
       (simp_all add: create_data_def get_def)
  ultimately show ?thesis by (simp add: select_def)
qed

lemma create_data_status:
  "get (create_data uid t d @ g) ''verificationStatus'' = JStr ''PENDING''"
  "get (create_data uid t d @ g) ''termsAccepted'' = get d ''termsAccepted''"
  "get (create_data uid t d @ g) ''termsAcceptedAt'' =
     (if \<not> falsy (get d ''termsAccepted'') then JDate t else JNull)"
  by (simp_all add: get_create_data_own create_data_keys)
     (simp_all add: create_data_def get_def)

lemma create_data_optional:
  assumes "k \<in> set [''description'', ''website'', ''businessEmail'', ''addressLine2'',
      ''gstVatNumber'', ''yearsInBusiness'', ''facebookUrl'', ''instagramUrl'',
      ''linkedinUrl'', ''twitterUrl'', ''bankBranchAddress'']"
  shows "get (create_data uid t d @ g) k = or_null (get d k)"
proof -
  have "list_all (\<lambda>k. get (create_data uid t d @ g) k = or_null (get d k))
      [''description'', ''website'', ''businessEmail'', ''addressLine2'',
      ''gstVatNumber'', ''yearsInBusiness'', ''facebookUrl'', ''instagramUrl'',
      ''linkedinUrl'', ''twitterUrl'', ''bankBranchAddress'']"
    by (simp add: get_create_data_own create_data_keys)
       (simp add: create_data_def get_def)
  then show ?thesis using assms unfolding list_all_iff by blast
qed

lemma get_update_role:
  "get (AList.update ''role'' v row) ''role'' = v"
  "get (AList.update ''role'' v row) ''id'' = get row ''id''"
  by (simp_all add: get_def update_conv')

lemma user_update_found:
  "find (\<lambda>row. get row ''id'' = uid) (user st) \<noteq> None \<Longrightarrow>
     db_user_update st uid [(''role'', v)] =
       Inr (st\<lparr>user := map (\<lambda>row. if get row ''id'' = uid
                                   then AList.update ''role'' v row else row) (user st)\<rparr>)"
  by (auto simp: db_user_update_def AList.updates_def)

lemma POST_created:
  assumes "\<not> falsy (session_user_id (session req))" and "body req = Some b"
    and "safeParse env route_sellerRegistrationSchema b = Inr d"
    and "sellerProfile_findUnique st (session_user_id (session req)) = None"
    and "find (\<lambda>row. get row ''id'' = session_user_id (session req)) (user st) \<noteq> None"
  shows "POST env c st req =
    (\<lparr>status = 201, message = Some ''Seller profile created successfully'', errors = None,
      seller = Some
        [(''id'', get (generated c) ''id''),
         (''businessName'', get d ''businessName''),
         (''businessType'', get d ''businessType''),
         (''verificationStatus'', JStr ''PENDING''),
         (''createdAt'', get (generated c) ''createdAt'')]\<rparr>,
     st\<lparr>sellerProfile :=
           sellerProfile st
           @ [create_data (session_user_id (session req)) (now c) d @ generated c],
        user := map (\<lambda>row. if get row ''id'' = session_user_id (session req)
                            then AList.update ''role'' (JStr ''SELLER'') row else row)
                  (user st)\<rparr>)"
proof -
  let ?uid = "session_user_id (session req)"
  let ?st1 = "st\<lparr>sellerProfile :=
                  sellerProfile st @ [create_data ?uid (now c) d @ generated c]\<rparr>"
  have "find (\<lambda>row. get row ''id'' = ?uid) (user ?st1) \<noteq> None"
    using assms(5) by simp
  then have "db_user_update ?st1 ?uid [(''role'', JStr ''SELLER'')] =
      Inr (?st1\<lparr>user := map (\<lambda>row. if get row ''id'' = ?uid
                                    then AList.update ''role'' (JStr ''SELLER'') row
                                    else row) (user ?st1)\<rparr>)"
    by (rule user_update_found)
  then show ?thesis
    using assms(1-4)
    by (simp add: POST_def Let_def sellerProfile_create_fresh create_data_projection)
qed

lemma valid_termsAccepted:
  assumes "safeParse env route_sellerRegistrationSchema b = Inr d"
  shows "get d ''termsAccepted'' = JBool True"
proof -
  have "zparse env (ZRefine ZBoolean (\<lambda>val. val = JBool True)) (opt_get b ''termsAccepted'')
          = Some (get d ''termsAccepted'')"
    using safeParse_get [OF assms route_keys_distinct route_termsAccepted] .
  then show ?thesis
    unfolding zparse_termsAccepted by (auto split: if_splits)
qed

lemma example_db_fresh:
  "sellerProfile_findUnique example_db (JStr ''u1'') = None"
  "find (\<lambda>row. get row ''id'' = JStr ''u1'') (user example_db) \<noteq> None"
  by (simp_all add: sellerProfile_findUnique_def example_db_def get_def)

section \<open>Zero years in business\<close>

lemma route_yearsInBusiness:
  "(''yearsInBusiness'', ZOptional (ZCoerceNumber [NMin 0, NMax 100]))
     \<in> set route_sellerRegistrationSchema"
  by (simp add: route_sellerRegistrationSchema_def)

lemma zparse_years_zero:
  "zparse env (ZOptional (ZCoerceNumber [NMin 0, NMax 100])) (JNum (Fin 0))
     = Some (JNum (Fin 0))"
  by simp

text \<open>
  C10. The schema of the route accepts 0 for yearsInBusiness. When a payload passes
  validation and its yearsInBusiness is the number 0 (or parses to 0), the profile row
  that the registration adds holds null in that column, not 0.
\<close>

theorem POST_yearsInBusiness_zero:
  assumes "\<not> falsy (session_user_id (session req))"
    and "body req = Some b"
    and "safeParse env route_sellerRegistrationSchema b = Inr d"
    and "sellerProfile_findUnique st (session_user_id (session req)) = None"
    and "opt_get b ''yearsInBusiness'' = JNum (Fin 0)
         \<or> get d ''yearsInBusiness'' = JNum (Fin 0)"
  shows "zparse env (ZOptional (ZCoerceNumber [NMin 0, NMax 100])) (JNum (Fin 0))
           = Some (JNum (Fin 0))
    \<and> get d ''yearsInBusiness'' = JNum (Fin 0)
    \<and> (\<exists>row. sellerProfile (snd (POST env c st req)) = sellerProfile st @ [row]
          \<and> get row ''userId'' = session_user_id (session req)
          \<and> get row ''yearsInBusiness'' = JNull)"
proof -
  let ?row = "create_data (session_user_id (session req)) (now c) d @ generated c"
  have parsed: "zparse env (ZOptional (ZCoerceNumber [NMin 0, NMax 100]))
                  (opt_get b ''yearsInBusiness'') = Some (get d ''yearsInBusiness'')"
    using safeParse_get [OF assms(3) route_keys_distinct route_yearsInBusiness] .
  have zero: "get d ''yearsInBusiness'' = JNum (Fin 0)"
    using assms(5)
  proof
    assume "opt_get b ''yearsInBusiness'' = JNum (Fin 0)"
    then show ?thesis using parsed by (simp only: zparse_years_zero) simp
  qed
  have "''yearsInBusiness'' \<in> set [''description'', ''website'', ''businessEmail'',
      ''addressLine2'', ''gstVatNumber'', ''yearsInBusiness'', ''facebookUrl'',
      ''instagramUrl'', ''linkedinUrl'', ''twitterUrl'', ''bankBranchAddress'']"
    by simp
  then have "get ?row ''yearsInBusiness'' = or_null (get d ''yearsInBusiness'')"
    by (rule create_data_optional)
  then have null: "get ?row ''yearsInBusiness'' = JNull"
    using zero by (simp add: or_null_def)
  have "sellerProfile (snd (POST env c st req)) = sellerProfile st @ [?row]"
    using assms(1-4) by (rule POST_new_rows)
  then show ?thesis
    using zero null zparse_years_zero get_create_data_userId by blast
qed

theorem POST_yearsInBusiness_zero_witness:
  "get example_data ''yearsInBusiness'' = JNum (Fin 0)
   \<and> (\<exists>row. sellerProfile (snd (POST example_env example_call example_db
          \<lparr>session = example_session, body = Some (JObj example_payload)\<rparr>)) = [row]
         \<and> get row ''yearsInBusiness'' = JNull)"
proof -
  let ?req = "\<lparr>session = example_session, body = Some (JObj example_payload)\<rparr>"
  have auth: "\<not> falsy (session_user_id (session ?req))"
    by (simp add: example_session_user_id)
  have body: "body ?req = Some (JObj example_payload)" by simp
  have fresh: "sellerProfile_findUnique example_db (session_user_id (session ?req)) = None"
    by (simp add: example_session_user_id example_db_fresh)
  have zero: "opt_get (JObj example_payload) ''yearsInBusiness'' = JNum (Fin 0)
              \<or> get example_data ''yearsInBusiness'' = JNum (Fin 0)"
    by (simp add: opt_get_def get_def example_payload_def)
  have empty: "sellerProfile example_db = []"
    by (simp add: example_db_def)
  show ?thesis
    using POST_yearsInBusiness_zero [OF auth body example_payload_valid fresh zero,
            of example_call]
    unfolding empty append_Nil by blast
qed

section \<open>The two registration schemas\<close>










section \<open>The product categories\<close>

lemma those_map_keep:
  assumes "\<And>x. f x = (if P x then Some x else None)"
  shows "those (map f xs) = Some ys \<longleftrightarrow> list_all P xs \<and> ys = xs"
  by (induction xs arbitrary: ys) (auto simp: assms split: option.splits)

lemma list_all_strings:
  "list_all (\<lambda>x. \<exists>s. x = JStr s) xs \<longleftrightarrow> (\<exists>ss. xs = map JStr ss)"
proof (induction xs)
  case Nil
  then show ?case by simp
next
  case (Cons x xs)
  show ?case
  proof
    assume "list_all (\<lambda>x. \<exists>s. x = JStr s) (x # xs)"
    then obtain s ss where "x = JStr s" "xs = map JStr ss"
      using Cons.IH by auto
    then have "x # xs = map JStr (s # ss)" by simp
    then show "\<exists>ss. x # xs = map JStr ss" by (rule exI)
  next
    assume "\<exists>ss. x # xs = map JStr ss"
    then obtain ss where "x # xs = map JStr ss" by (elim exE)
    then obtain s ss' where "x = JStr s" "xs = map JStr ss'"
      by (cases ss) auto
    then show "list_all (\<lambda>x. \<exists>s. x = JStr s) (x # xs)"
      using Cons.IH by auto
  qed
qed

lemma zparse_any_string:
  "zparse env (ZString []) x = (if \<exists>s. x = JStr s then Some x else None)"
  by (cases x) simp_all

lemma those_strings:
  "those (map (zparse env (ZString [])) xs) = Some ys \<longleftrightarrow>
     (\<exists>ss. xs = map JStr ss) \<and> ys = xs"
  using those_map_keep [of "zparse env (ZString [])" "\<lambda>x. \<exists>s. x = JStr s" xs ys,
          OF zparse_any_string]
  by (simp only: list_all_strings)

lemma zparse_productCategories:
  "zparse env (ZArrayMin (ZString []) 1) v \<noteq> None \<longleftrightarrow>
     (\<exists>ss. ss \<noteq> [] \<and> v = JArr (map JStr ss))"
proof (cases v)
  case (JArr xs)
  have "zparse env (ZArrayMin (ZString []) 1) (JArr xs) =
          (case those (map (zparse env (ZString [])) xs) of
             Some ys \<Rightarrow> if length xs < 1 then None else Some (JArr ys)
           | None \<Rightarrow> None)"
    by (simp only: zparse.simps jsval.case)
  then have "zparse env (ZArrayMin (ZString []) 1) (JArr xs) \<noteq> None \<longleftrightarrow>
          (\<exists>ys. those (map (zparse env (ZString [])) xs) = Some ys) \<and> xs \<noteq> []"
    by (cases "those (map (zparse env (ZString [])) xs)") auto
  also have "\<dots> \<longleftrightarrow> (\<exists>ss. xs = map JStr ss) \<and> xs \<noteq> []"
    using those_strings [of env xs] by blast
  also have "\<dots> \<longleftrightarrow> (\<exists>ss. ss \<noteq> [] \<and> xs = map JStr ss)"
    by auto
  finally show ?thesis using JArr by simp
qed simp_all

lemma get_update:
  "get (AList.update k v obj) k' = (if k' = k then v else get obj k')"
  by (simp add: get_def update_conv')

lemma route_productCategories_only:
  "(''productCategories'', t) \<in> set route_sellerRegistrationSchema \<Longrightarrow>
     t = ZArrayMin (ZString []) 1"
  using route_keys_distinct route_productCategories
  by (meson eq_key_imp_eq_value)

text \<open>
  C5, as the code has it. The schema of the route has no catalog: its check of
  productCategories passes exactly the non-empty arrays of strings. A payload whose
  productCategories is anything else is answered with 400, the error naming the field,
  and the store is left as it was. In a payload that passes validation, the categories
  can be replaced by any non-empty list of strings and the payload still passes.
\<close>

theorem route_checks_categories_shape_only:
  "(''productCategories'', ZArrayMin (ZString []) 1) \<in> set route_sellerRegistrationSchema
   \<and> (zparse env (ZArrayMin (ZString []) 1) v \<noteq> None
        \<longleftrightarrow> (\<exists>ss. ss \<noteq> [] \<and> v = JArr (map JStr ss)))
   \<and> (\<not> falsy (session_user_id (session req)) \<and> body req = Some b
       \<and> \<not> (\<exists>ss. ss \<noteq> [] \<and> opt_get b ''productCategories'' = JArr (map JStr ss))
      \<longrightarrow> (\<exists>e. POST env c st req =
                 (\<lparr>status = 400, message = Some ''Invalid input'', errors = Some e,
                   seller = None\<rparr>, st)
               \<and> ((\<exists>obj. b = JObj obj) \<longrightarrow> ''productCategories'' \<in> set (fieldErrors e))))
   \<and> (safeParse env route_sellerRegistrationSchema (JObj obj) = Inr d \<and> ss \<noteq> []
      \<longrightarrow> (\<exists>d'. safeParse env route_sellerRegistrationSchema
                  (JObj (AList.update ''productCategories'' (JArr (map JStr ss)) obj))
                = Inr d'))"
proof -
  have shape: "(''productCategories'', ZArrayMin (ZString []) 1)
          \<in> set route_sellerRegistrationSchema"
    by (rule route_productCategories)
  have field: "zparse env (ZArrayMin (ZString []) 1) v \<noteq> None
          \<longleftrightarrow> (\<exists>ss. ss \<noteq> [] \<and> v = JArr (map JStr ss))"
    by (rule zparse_productCategories)
  have reject: "\<exists>e. POST env c st req =
                 (\<lparr>status = 400, message = Some ''Invalid input'', errors = Some e,
                   seller = None\<rparr>, st)
               \<and> ((\<exists>obj. b = JObj obj) \<longrightarrow> ''productCategories'' \<in> set (fieldErrors e))"
    if a: "\<not> falsy (session_user_id (session req)) \<and> body req = Some b
       \<and> \<not> (\<exists>ss. ss \<noteq> [] \<and> opt_get b ''productCategories'' = JArr (map JStr ss))"
  proof -
    have none: "zparse env (ZArrayMin (ZString []) 1) (opt_get b ''productCategories'')
                     = None"
      using a zparse_productCategories [of env "opt_get b ''productCategories''"] by blast
    show ?thesis
    proof (cases "\<exists>obj. b = JObj obj")
      case True
      then obtain obj' where b: "b = JObj obj'" by blast
      then have "zparse env (ZArrayMin (ZString []) 1) (get obj' ''productCategories'')
                   = None"
        using none by (simp add: opt_get_def)
      then obtain e where "safeParse env route_sellerRegistrationSchema (JObj obj') = Inl e"
          "''productCategories'' \<in> set (fieldErrors e)"
        using safeParse_field_issue [OF route_productCategories] by blast
      then show ?thesis using POST_invalid [of req b env e c st] a b by auto
    next
      case False
      then have "safeParse env route_sellerRegistrationSchema b =
                   Inl \<lparr>formErrors = 1, fieldErrors = []\<rparr>"
        by (intro safeParse_not_object) simp
      then show ?thesis using POST_invalid [of req b env _ c st] a False by auto
    qed
  qed
  have replace: "\<exists>d'. safeParse env route_sellerRegistrationSchema
                  (JObj (AList.update ''productCategories'' (JArr (map JStr ss)) obj))
                = Inr d'"
    if a: "safeParse env route_sellerRegistrationSchema (JObj obj) = Inr d \<and> ss \<noteq> []"
  proof -
    let ?obj' = "AList.update ''productCategories'' (JArr (map JStr ss)) obj"
    have ok: "\<forall>(k, t) \<in> set route_sellerRegistrationSchema.
                zparse env t (get obj k) \<noteq> None"
      using a safeParse_Inr_iff [of env route_sellerRegistrationSchema "JObj obj" d] by simp
    have cats: "zparse env (ZArrayMin (ZString []) 1) (JArr (map JStr ss)) \<noteq> None"
      using a zparse_productCategories [of env "JArr (map JStr ss)"] by blast
    have "zparse env t (get ?obj' k) \<noteq> None"
      if kt: "(k, t) \<in> set route_sellerRegistrationSchema" for k t
    proof (cases "k = ''productCategories''")
      case True
      then have t: "t = ZArrayMin (ZString []) 1"
        using kt route_productCategories_only by blast
      have g: "get ?obj' k = JArr (map JStr ss)"
        using True by (simp add: get_update)
      show ?thesis unfolding g t by (rule cats)
    next
      case False
      then have "get ?obj' k = get obj k" by (simp add: get_update)
      then show ?thesis using ok kt by auto
    qed
    then have "\<forall>(k, t) \<in> set route_sellerRegistrationSchema.
                 zparse env t (get ?obj' k) \<noteq> None"
      by blast
    then show ?thesis
      using safeParse_Inr_iff [of env route_sellerRegistrationSchema "JObj ?obj'"] by blast
  qed
  show ?thesis using shape field reject replace by blast
qed

theorem route_checks_categories_shape_only_witness:
  "zparse example_env (ZArrayMin (ZString []) 1) (JArr [JStr ''Weapons'']) \<noteq> None
   \<and> (\<exists>e. POST example_env example_call example_db
            \<lparr>session = example_session,
             body = Some (JObj [(''productCategories'', JArr [])])\<rparr> =
            (\<lparr>status = 400, message = Some ''Invalid input'', errors = Some e,
              seller = None\<rparr>, example_db)
          \<and> ''productCategories'' \<in> set (fieldErrors e))"
proof -
  let ?b = "JObj [(''productCategories'', JArr [])]"
  let ?req = "\<lparr>session = example_session, body = Some ?b\<rparr>"
  note main = route_checks_categories_shape_only
                [of example_env "JArr [JStr ''Weapons'']" ?req ?b example_call example_db]
  have "JArr [JStr ''Weapons''] = JArr (map JStr [''Weapons''])" by simp
  then have strings: "\<exists>ss. ss \<noteq> [] \<and> JArr [JStr ''Weapons''] = JArr (map JStr ss)"
    by (intro exI [of _ "[''Weapons'']"]) simp
  have a: "zparse example_env (ZArrayMin (ZString []) 1) (JArr [JStr ''Weapons'']) \<noteq> None"
    using main [THEN conjunct2, THEN conjunct1] strings by (rule iffD2)
  have hyp: "\<not> falsy (session_user_id (session ?req)) \<and> body ?req = Some ?b
       \<and> \<not> (\<exists>ss. ss \<noteq> [] \<and> opt_get ?b ''productCategories'' = JArr (map JStr ss))"
    by (simp add: example_session_user_id opt_get_def get_def)
  have obj: "\<exists>obj. ?b = JObj obj" by simp
  obtain e where e: "POST example_env example_call example_db ?req =
            (\<lparr>status = 400, message = Some ''Invalid input'', errors = Some e,
              seller = None\<rparr>, example_db)"
      and mem: "(\<exists>obj. ?b = JObj obj) \<longrightarrow> ''productCategories'' \<in> set (fieldErrors e)"
    using mp [OF main [THEN conjunct2, THEN conjunct2, THEN conjunct1] hyp]
    by (elim exE conjE)
  have "''productCategories'' \<in> set (fieldErrors e)"
    using mem obj by (rule mp)
  then have b: "\<exists>e. POST example_env example_call example_db ?req =
            (\<lparr>status = 400, message = Some ''Invalid input'', errors = Some e,
              seller = None\<rparr>, example_db)
          \<and> ''productCategories'' \<in> set (fieldErrors e)"
    using e by (intro exI [of _ e] conjI)
  show ?thesis using a b by (rule conjI)
qed

text \<open>
  C5 as it is stated fails: a payload whose only category is outside the catalog passes
  validation and the registration answers 201.
\<close>

theorem POST_accepts_category_outside_catalog:
  "''Weapons'' \<notin> set productCategories
   \<and> get example_other_category_payload ''productCategories'' = JArr [JStr ''Weapons'']
   \<and> status (fst (POST example_env example_call example_db
                  \<lparr>session = example_session,
                   body = Some (JObj example_other_category_payload)\<rparr>)) = 201"
proof -
  let ?req = "\<lparr>session = example_session,
                body = Some (JObj example_other_category_payload)\<rparr>"
  have outside: "''Weapons'' \<notin> set productCategories"
    by (simp add: productCategories_def)
  have cats: "get example_other_category_payload ''productCategories''
                = JArr [JStr ''Weapons'']"
    by (simp add: example_other_category_payload_def get_update)
  have valid: "safeParse example_env route_sellerRegistrationSchema
                 (JObj example_other_category_payload)
               = Inr (AList.update ''productCategories'' (JArr [JStr ''Weapons''])
                        example_data)"
    by code_simp
  have auth: "\<not> falsy (session_user_id (session ?req))"
    by (simp add: example_session_user_id)
  have body: "body ?req = Some (JObj example_other_category_payload)" by simp
  have fresh: "sellerProfile_findUnique example_db (session_user_id (session ?req)) = None"
    by (simp add: example_session_user_id example_db_fresh)
  have row: "find (\<lambda>row. get row ''id'' = session_user_id (session ?req)) (user example_db)
               \<noteq> None"
    by (simp add: example_session_user_id example_db_fresh)
  have "status (fst (POST example_env example_call example_db ?req)) = 201"
    using POST_created [OF auth body valid fresh row, of example_call] by simp
  then show ?thesis using outside cats by blast
qed

section \<open>Submitting the registration form\<close>

lemma onSubmit_requests:
  "requests (onSubmit network st data) = requests st @ [data]"
  "currentStep (onSubmit network st data) = currentStep st"
  "formValues (onSubmit network st data) = formValues st"
  by (simp_all add: onSubmit_def Let_def
           split: fetch_result.splits option.splits jsval.splits)

lemma fifth_step:
  "click_next (click_next (click_next (click_next initial_page))) =
     \<lparr>currentStep = 5, formValues = untouched_values, isLoading = False, error = JStr [],
      success = False, requests = []\<rparr>"
  by (simp add: click_next_def initial_page_def render_def step_inputs_def
        register_input_def defaultValues_def untouched_values_def get_def)

lemma untouched_values_rejected:
  "safeParse example_env page_sellerRegistrationSchema (JObj untouched_values) =
     Inl \<lparr>formErrors = 0,
          fieldErrors =
            [''businessName'', ''businessType'', ''description'', ''phone'',
             ''contactPersonName'', ''addressLine1'', ''city'', ''state'', ''country'',
             ''postalCode'', ''taxId'', ''businessLicense'', ''bankAccountHolder'',
             ''bankName'', ''accountNumber'', ''ifscSwiftCode'', ''productCategories'',
             ''termsAccepted'']\<rparr>"
  by code_simp

text \<open>
  C6, on the code. The handler of the button "Submit Application" passes the values of the
  form to \<open>onSubmit\<close> without running the schema on them: at the fifth step, with no
  request running, one click sends the values of the form in one request even when the
  schema of the page rejects them, and the page stays where it is.
\<close>

theorem click_submit_sends_unvalidated_form:
  assumes "\<not> currentStep st < 5"
    and "\<not> isLoading st"
    and "safeParse env page_sellerRegistrationSchema (JObj (formValues st)) = Inl e"
  shows "requests (click_submit network st) = requests st @ [JObj (formValues st)]
    \<and> currentStep (click_submit network st) = currentStep st
    \<and> formValues (click_submit network st) = formValues st"
  using assms(1,2) by (simp add: click_submit_def onSubmit_requests)

theorem click_submit_sends_unvalidated_form_witness:
  "currentStep (click_next (click_next (click_next (click_next initial_page)))) = 5
   \<and> formValues (click_next (click_next (click_next (click_next initial_page))))
       = untouched_values
   \<and> requests (click_submit (\<lambda>data. Rejected)
        (click_next (click_next (click_next (click_next initial_page)))))
      = [JObj untouched_values]"
proof -
  let ?st = "click_next (click_next (click_next (click_next initial_page)))"
  have step: "\<not> currentStep ?st < 5" and idle: "\<not> isLoading ?st"
    and vals: "formValues ?st = untouched_values" and none: "requests ?st = []"
    and five: "currentStep ?st = 5"
    by (simp_all add: fifth_step)
  have rejected: "safeParse example_env page_sellerRegistrationSchema (JObj (formValues ?st))
      = Inl \<lparr>formErrors = 0,
          fieldErrors =
            [''businessName'', ''businessType'', ''description'', ''phone'',
             ''contactPersonName'', ''addressLine1'', ''city'', ''state'', ''country'',
             ''postalCode'', ''taxId'', ''businessLicense'', ''bankAccountHolder'',
             ''bankName'', ''accountNumber'', ''ifscSwiftCode'', ''productCategories'',
             ''termsAccepted'']\<rparr>"
    unfolding vals by (rule untouched_values_rejected)
  have "requests (click_submit (\<lambda>data. Rejected) ?st)
          = requests ?st @ [JObj (formValues ?st)]"
    using click_submit_sends_unvalidated_form [OF step idle rejected] by (rule conjunct1)
  then have "requests (click_submit (\<lambda>data. Rejected) ?st) = [JObj untouched_values]"
    unfolding vals none by simp
  then show ?thesis using five vals by (intro conjI)
qed

section \<open>The stored profile, column by column\<close>

lemma route_same_output:
  assumes "k \<in> set [''businessName'', ''businessType'', ''phone'', ''contactPersonName'',
      ''addressLine1'', ''city'', ''state'', ''country'', ''postalCode'', ''taxId'',
      ''businessLicense'', ''bankAccountHolder'', ''bankName'', ''accountNumber'',
      ''ifscSwiftCode'', ''description'', ''website'', ''businessEmail'', ''addressLine2'',
      ''gstVatNumber'', ''facebookUrl'', ''instagramUrl'', ''linkedinUrl'', ''twitterUrl'',
      ''bankBranchAddress'', ''termsAccepted'']"
  shows "\<exists>t. (k, t) \<in> set route_sellerRegistrationSchema
           \<and> (\<forall>v r. zparse env t v = Some r \<longrightarrow> r = v)"
proof -
  have "list_all (\<lambda>k. \<exists>t. (k, t) \<in> set route_sellerRegistrationSchema
           \<and> (\<forall>v r. zparse env t v = Some r \<longrightarrow> r = v))
     [''businessName'', ''businessType'', ''phone'', ''contactPersonName'',
      ''addressLine1'', ''city'', ''state'', ''country'', ''postalCode'', ''taxId'',
      ''businessLicense'', ''bankAccountHolder'', ''bankName'', ''accountNumber'',
      ''ifscSwiftCode'', ''description'', ''website'', ''businessEmail'', ''addressLine2'',
      ''gstVatNumber'', ''facebookUrl'', ''instagramUrl'', ''linkedinUrl'', ''twitterUrl'',
      ''bankBranchAddress'', ''termsAccepted'']"
    unfolding route_sellerRegistrationSchema_def
    by (auto split: jsval.splits if_splits option.splits)
  then show ?thesis using assms unfolding list_all_iff by blast
qed

lemma zparse_productCategories_same:
  assumes "zparse env (ZArrayMin (ZString []) 1) v = Some r"
  shows "r = v"
proof (cases v)
  case (JArr xs)
  have "zparse env (ZArrayMin (ZString []) 1) (JArr xs) =
          (case those (map (zparse env (ZString [])) xs) of
             Some ys \<Rightarrow> if length xs < 1 then None else Some (JArr ys)
           | None \<Rightarrow> None)"
    by (simp only: zparse.simps jsval.case)
  then obtain ys where "those (map (zparse env (ZString [])) xs) = Some ys" "r = JArr ys"
    using assms JArr
    by (cases "those (map (zparse env (ZString [])) xs)") (auto split: if_splits)
  then show ?thesis using those_strings [of env xs ys] JArr by simp
qed (use assms in simp_all)

lemma valid_same:
  assumes "safeParse env route_sellerRegistrationSchema b = Inr d"
    and "k \<in> set [''businessName'', ''businessType'', ''phone'', ''contactPersonName'',
      ''addressLine1'', ''city'', ''state'', ''country'', ''postalCode'', ''taxId'',
      ''businessLicense'', ''bankAccountHolder'', ''bankName'', ''accountNumber'',
      ''ifscSwiftCode'', ''description'', ''website'', ''businessEmail'', ''addressLine2'',
      ''gstVatNumber'', ''facebookUrl'', ''instagramUrl'', ''linkedinUrl'', ''twitterUrl'',
      ''bankBranchAddress'', ''termsAccepted'', ''productCategories'']"
  shows "get d k = opt_get b k"
proof (cases "k = ''productCategories''")
  case True
  have "zparse env (ZArrayMin (ZString []) 1) (opt_get b ''productCategories'')
          = Some (get d ''productCategories'')"
    using safeParse_get [OF assms(1) route_keys_distinct route_productCategories] .
  then show ?thesis using True zparse_productCategories_same by blast
next
  case False
  then have "k \<in> set [''businessName'', ''businessType'', ''phone'', ''contactPersonName'',
      ''addressLine1'', ''city'', ''state'', ''country'', ''postalCode'', ''taxId'',
      ''businessLicense'', ''bankAccountHolder'', ''bankName'', ''accountNumber'',
      ''ifscSwiftCode'', ''description'', ''website'', ''businessEmail'', ''addressLine2'',
      ''gstVatNumber'', ''facebookUrl'', ''instagramUrl'', ''linkedinUrl'', ''twitterUrl'',
      ''bankBranchAddress'', ''termsAccepted'']"
    using assms(2) by auto
  then obtain t where t: "(k, t) \<in> set route_sellerRegistrationSchema"
      "\<forall>v r. zparse env t v = Some r \<longrightarrow> r = v"
    using route_same_output by blast
  have "zparse env t (opt_get b k) = Some (get d k)"
    using safeParse_get [OF assms(1) route_keys_distinct t(1)] .
  then show ?thesis using t(2) by blast
qed

lemma route_shipping:
  "(''managesOwnShipping'', ZDefault ZBoolean (JBool True))
     \<in> set route_sellerRegistrationSchema"
  "(''needsShippingHelp'', ZDefault ZBoolean (JBool False))
     \<in> set route_sellerRegistrationSchema"
  by (simp_all add: route_sellerRegistrationSchema_def)

lemma zparse_default_boolean:
  "zparse env (ZDefault ZBoolean (JBool x)) v = Some r \<Longrightarrow>
     r = (if v = JUndefined then JBool x else v)"
  by (cases v) (auto split: if_splits)

lemma zparse_years:
  "zparse env (ZOptional (ZCoerceNumber [NMin 0, NMax 100])) v = Some r \<Longrightarrow>
     r = (if v = JUndefined then JUndefined else JNum (Number_js env v))
     \<and> (v \<noteq> JUndefined \<longrightarrow> Number_js env v \<noteq> NaN)"
  by (auto simp: Let_def split: if_splits)

lemma valid_shipping:
  assumes "safeParse env route_sellerRegistrationSchema b = Inr d"
  shows "get d ''managesOwnShipping'' =
           (if opt_get b ''managesOwnShipping'' = JUndefined then JBool True
            else opt_get b ''managesOwnShipping'')"
    and "get d ''needsShippingHelp'' =
           (if opt_get b ''needsShippingHelp'' = JUndefined then JBool False
            else opt_get b ''needsShippingHelp'')"
  using safeParse_get [OF assms route_keys_distinct route_shipping(1)]
        safeParse_get [OF assms route_keys_distinct route_shipping(2)]
        zparse_default_boolean
  by blast+

lemma valid_years:
  assumes "safeParse env route_sellerRegistrationSchema b = Inr d"
  shows "or_null (get d ''yearsInBusiness'') =
           (if opt_get b ''yearsInBusiness'' = JUndefined
               \<or> Number_js env (opt_get b ''yearsInBusiness'') = Fin 0
            then JNull else JNum (Number_js env (opt_get b ''yearsInBusiness'')))"
proof -
  have "zparse env (ZOptional (ZCoerceNumber [NMin 0, NMax 100]))
          (opt_get b ''yearsInBusiness'') = Some (get d ''yearsInBusiness'')"
    using safeParse_get [OF assms route_keys_distinct route_yearsInBusiness] .
  then have "get d ''yearsInBusiness'' =
      (if opt_get b ''yearsInBusiness'' = JUndefined then JUndefined
       else JNum (Number_js env (opt_get b ''yearsInBusiness'')))
     \<and> (opt_get b ''yearsInBusiness'' \<noteq> JUndefined
          \<longrightarrow> Number_js env (opt_get b ''yearsInBusiness'') \<noteq> NaN)"
    by (rule zparse_years)
  then show ?thesis by (auto simp: or_null_def)
qed

lemma create_data_plain:
  assumes "k \<in> set [''businessName'', ''businessType'', ''phone'', ''contactPersonName'',
      ''addressLine1'', ''city'', ''state'', ''country'', ''postalCode'', ''taxId'',
      ''businessLicense'', ''bankAccountHolder'', ''bankName'', ''accountNumber'',
      ''ifscSwiftCode'', ''productCategories'', ''managesOwnShipping'',
      ''needsShippingHelp'', ''termsAccepted'']"
  shows "get (create_data uid t d @ g) k = get d k"
proof -
  have "list_all (\<lambda>k. get (create_data uid t d @ g) k = get d k)
     [''businessName'', ''businessType'', ''phone'', ''contactPersonName'',
      ''addressLine1'', ''city'', ''state'', ''country'', ''postalCode'', ''taxId'',
      ''businessLicense'', ''bankAccountHolder'', ''bankName'', ''accountNumber'',
      ''ifscSwiftCode'', ''productCategories'', ''managesOwnShipping'',
      ''needsShippingHelp'', ''termsAccepted'']"
    by (simp add: get_create_data_own create_data_keys)
       (simp add: create_data_def get_def)
  then show ?thesis using assms unfolding list_all_iff by blast
qed

lemma POST_role_update_fails:
  assumes "\<not> falsy (session_user_id (session req))" and "body req = Some b"
    and "safeParse env route_sellerRegistrationSchema b = Inr d"
    and "sellerProfile_findUnique st (session_user_id (session req)) = None"
    and "find (\<lambda>row. get row ''id'' = session_user_id (session req)) (user st) = None"
  shows "POST env c st req =
    (message_response 500 ''Internal server error'',
     st\<lparr>sellerProfile :=
           sellerProfile st
           @ [create_data (session_user_id (session req)) (now c) d @ generated c]\<rparr>)"
  using assms
  by (simp add: POST_def Let_def sellerProfile_create_fresh db_user_update_def)

text \<open>
  C3, as the code has it. The role update is a second write after the profile is created,
  and it throws when the identity has no row in the user table. For an authenticated
  identity that has such a row and no profile, and a payload that passes validation, the
  registration answers 201 with the projection of the new profile on id, businessName,
  businessType, verificationStatus and createdAt (no payment or tax column). The store
  gains one profile row for the identity. Each required column holds the value of the
  payload; each optional text column holds the value of the payload, or null when the
  payload has none or has the empty string; yearsInBusiness holds the number the payload
  gives, or null when it gives none or zero; the two shipping flags hold the value of the
  payload or their defaults; verificationStatus is PENDING, termsAccepted is true and
  termsAcceptedAt is the time of the call (the expression gives null for a termsAccepted
  of false, which a valid payload never has); every other column is the one the store
  generates. In the user table the rows of the identity get the role SELLER and no other
  row changes.
\<close>

theorem POST_creates_profile:
  assumes "\<not> falsy (session_user_id (session req))"
    and "body req = Some b"
    and "safeParse env route_sellerRegistrationSchema b = Inr d"
    and "sellerProfile_findUnique st (session_user_id (session req)) = None"
    and "find (\<lambda>row. get row ''id'' = session_user_id (session req)) (user st) \<noteq> None"
  shows "fst (POST env c st req) =
      \<lparr>status = 201, message = Some ''Seller profile created successfully'', errors = None,
       seller = Some
         [(''id'', get (generated c) ''id''),
          (''businessName'', opt_get b ''businessName''),
          (''businessType'', opt_get b ''businessType''),
          (''verificationStatus'', JStr ''PENDING''),
          (''createdAt'', get (generated c) ''createdAt'')]\<rparr>
    \<and> (\<exists>row. sellerProfile (snd (POST env c st req)) = sellerProfile st @ [row]
          \<and> get row ''userId'' = session_user_id (session req)
          \<and> (\<forall>k \<in> set [''businessName'', ''businessType'', ''phone'',
                  ''contactPersonName'', ''addressLine1'', ''city'', ''state'', ''country'',
                  ''postalCode'', ''taxId'', ''businessLicense'', ''bankAccountHolder'',
                  ''bankName'', ''accountNumber'', ''ifscSwiftCode'', ''productCategories''].
                get row k = opt_get b k)
          \<and> (\<forall>k \<in> set [''description'', ''website'', ''businessEmail'', ''addressLine2'',
                  ''gstVatNumber'', ''facebookUrl'', ''instagramUrl'', ''linkedinUrl'',
                  ''twitterUrl'', ''bankBranchAddress''].
                get row k = (if falsy (opt_get b k) then JNull else opt_get b k)
                \<and> (opt_get b k = JStr [] \<longrightarrow> get row k = JNull)
                \<and> get row k \<noteq> JStr [])
          \<and> get row ''yearsInBusiness'' =
               (if opt_get b ''yearsInBusiness'' = JUndefined
                   \<or> Number_js env (opt_get b ''yearsInBusiness'') = Fin 0
                then JNull else JNum (Number_js env (opt_get b ''yearsInBusiness'')))
          \<and> get row ''managesOwnShipping'' =
               (if opt_get b ''managesOwnShipping'' = JUndefined then JBool True
                else opt_get b ''managesOwnShipping'')
          \<and> get row ''needsShippingHelp'' =
               (if opt_get b ''needsShippingHelp'' = JUndefined then JBool False
                else opt_get b ''needsShippingHelp'')
          \<and> get row ''verificationStatus'' = JStr ''PENDING''
          \<and> get row ''termsAccepted'' = JBool True
          \<and> get row ''termsAcceptedAt'' = JDate (now c)
          \<and> (\<forall>k. k \<notin> set [''userId'', ''businessName'', ''businessType'', ''description'',
                  ''website'', ''phone'', ''businessEmail'', ''contactPersonName'',
                  ''addressLine1'', ''addressLine2'', ''city'', ''state'', ''country'',
                  ''postalCode'', ''taxId'', ''gstVatNumber'', ''businessLicense'',
                  ''yearsInBusiness'', ''facebookUrl'', ''instagramUrl'', ''linkedinUrl'',
                  ''twitterUrl'', ''bankAccountHolder'', ''bankName'', ''accountNumber'',
                  ''ifscSwiftCode'', ''bankBranchAddress'', ''productCategories'',
                  ''managesOwnShipping'', ''needsShippingHelp'', ''termsAccepted'',
                  ''termsAcceptedAt'', ''verificationStatus'']
                \<longrightarrow> get row k = get (generated c) k))
    \<and> user (snd (POST env c st req)) =
        map (\<lambda>u. if get u ''id'' = session_user_id (session req)
                  then AList.update ''role'' (JStr ''SELLER'') u else u) (user st)
    \<and> (\<exists>u \<in> set (user (snd (POST env c st req))).
          get u ''id'' = session_user_id (session req))
    \<and> (\<forall>u \<in> set (user (snd (POST env c st req))).
          get u ''id'' = session_user_id (session req) \<longrightarrow> get u ''role'' = JStr ''SELLER'')
    \<and> (\<forall>d' g. get d' ''termsAccepted'' = JBool False \<longrightarrow>
          get (create_data (session_user_id (session req)) (now c) d' @ g) ''termsAcceptedAt''
            = JNull)"
proof -
  let ?uid = "session_user_id (session req)"
  let ?row = "create_data ?uid (now c) d @ generated c"
  note created = POST_created [OF assms, of c]
  have names: "get d ''businessName'' = opt_get b ''businessName''"
      "get d ''businessType'' = opt_get b ''businessType''"
    by (rule valid_same [OF assms(3)], simp)+
  have resp: "fst (POST env c st req) =
      \<lparr>status = 201, message = Some ''Seller profile created successfully'', errors = None,
       seller = Some
         [(''id'', get (generated c) ''id''),
          (''businessName'', opt_get b ''businessName''),
          (''businessType'', opt_get b ''businessType''),
          (''verificationStatus'', JStr ''PENDING''),
          (''createdAt'', get (generated c) ''createdAt'')]\<rparr>"
    by (simp add: created names)
  have rows: "sellerProfile (snd (POST env c st req)) = sellerProfile st @ [?row]"
    by (simp add: created)
  have terms: "get d ''termsAccepted'' = JBool True"
    using assms(3) by (rule valid_termsAccepted)
  have req: "\<forall>k \<in> set [''businessName'', ''businessType'', ''phone'',
                  ''contactPersonName'', ''addressLine1'', ''city'', ''state'', ''country'',
                  ''postalCode'', ''taxId'', ''businessLicense'', ''bankAccountHolder'',
                  ''bankName'', ''accountNumber'', ''ifscSwiftCode'', ''productCategories''].
                get ?row k = opt_get b k"
  proof
    fix k
    assume k: "k \<in> set [''businessName'', ''businessType'', ''phone'',
                  ''contactPersonName'', ''addressLine1'', ''city'', ''state'', ''country'',
                  ''postalCode'', ''taxId'', ''businessLicense'', ''bankAccountHolder'',
                  ''bankName'', ''accountNumber'', ''ifscSwiftCode'', ''productCategories'']"
    then have "get ?row k = get d k"
      by (intro create_data_plain) auto
    moreover have "get d k = opt_get b k"
      using k by (intro valid_same [OF assms(3)]) auto
    ultimately show "get ?row k = opt_get b k" by simp
  qed
  have opt: "\<forall>k \<in> set [''description'', ''website'', ''businessEmail'', ''addressLine2'',
                  ''gstVatNumber'', ''facebookUrl'', ''instagramUrl'', ''linkedinUrl'',
                  ''twitterUrl'', ''bankBranchAddress''].
                get ?row k = (if falsy (opt_get b k) then JNull else opt_get b k)
                \<and> (opt_get b k = JStr [] \<longrightarrow> get ?row k = JNull)
                \<and> get ?row k \<noteq> JStr []"
  proof
    fix k
    assume k: "k \<in> set [''description'', ''website'', ''businessEmail'', ''addressLine2'',
                  ''gstVatNumber'', ''facebookUrl'', ''instagramUrl'', ''linkedinUrl'',
                  ''twitterUrl'', ''bankBranchAddress'']"
    then have "get ?row k = or_null (get d k)"
      by (intro create_data_optional) auto
    moreover have "get d k = opt_get b k"
      using k by (intro valid_same [OF assms(3)]) auto
    ultimately have "get ?row k = (if falsy (opt_get b k) then JNull else opt_get b k)"
      by (simp add: or_null_def)
    then show "get ?row k = (if falsy (opt_get b k) then JNull else opt_get b k)
                \<and> (opt_get b k = JStr [] \<longrightarrow> get ?row k = JNull)
                \<and> get ?row k \<noteq> JStr []"
      by auto
  qed
  have "get ?row ''yearsInBusiness'' = or_null (get d ''yearsInBusiness'')"
    by (intro create_data_optional) simp
  then have years: "get ?row ''yearsInBusiness'' =
               (if opt_get b ''yearsInBusiness'' = JUndefined
                   \<or> Number_js env (opt_get b ''yearsInBusiness'') = Fin 0
                then JNull else JNum (Number_js env (opt_get b ''yearsInBusiness'')))"
    by (simp only: valid_years [OF assms(3)])
  have "get ?row ''managesOwnShipping'' = get d ''managesOwnShipping''"
      "get ?row ''needsShippingHelp'' = get d ''needsShippingHelp''"
    by (intro create_data_plain, simp)+
  then have ship: "get ?row ''managesOwnShipping'' =
               (if opt_get b ''managesOwnShipping'' = JUndefined then JBool True
                else opt_get b ''managesOwnShipping'')"
      "get ?row ''needsShippingHelp'' =
               (if opt_get b ''needsShippingHelp'' = JUndefined then JBool False
                else opt_get b ''needsShippingHelp'')"
    by (simp_all only: valid_shipping [OF assms(3)])
  have fixed: "get ?row ''userId'' = ?uid"
      "get ?row ''verificationStatus'' = JStr ''PENDING''"
      "get ?row ''termsAccepted'' = JBool True"
      "get ?row ''termsAcceptedAt'' = JDate (now c)"
    using terms by (simp_all add: get_create_data_userId create_data_status)
  have gen: "\<forall>k. k \<notin> set [''userId'', ''businessName'', ''businessType'', ''description'',
                  ''website'', ''phone'', ''businessEmail'', ''contactPersonName'',
                  ''addressLine1'', ''addressLine2'', ''city'', ''state'', ''country'',
                  ''postalCode'', ''taxId'', ''gstVatNumber'', ''businessLicense'',
                  ''yearsInBusiness'', ''facebookUrl'', ''instagramUrl'', ''linkedinUrl'',
                  ''twitterUrl'', ''bankAccountHolder'', ''bankName'', ''accountNumber'',
                  ''ifscSwiftCode'', ''bankBranchAddress'', ''productCategories'',
                  ''managesOwnShipping'', ''needsShippingHelp'', ''termsAccepted'',
                  ''termsAcceptedAt'', ''verificationStatus'']
                \<longrightarrow> get ?row k = get (generated c) k"
    using get_create_data_generated [of _ ?uid "now c" d "generated c"]
    unfolding create_data_keys by blast
  have row: "\<exists>row. sellerProfile (snd (POST env c st req)) = sellerProfile st @ [row]
          \<and> get row ''userId'' = ?uid
          \<and> (\<forall>k \<in> set [''businessName'', ''businessType'', ''phone'',
                  ''contactPersonName'', ''addressLine1'', ''city'', ''state'', ''country'',
                  ''postalCode'', ''taxId'', ''businessLicense'', ''bankAccountHolder'',
                  ''bankName'', ''accountNumber'', ''ifscSwiftCode'', ''productCategories''].
                get row k = opt_get b k)
          \<and> (\<forall>k \<in> set [''description'', ''website'', ''businessEmail'', ''addressLine2'',
                  ''gstVatNumber'', ''facebookUrl'', ''instagramUrl'', ''linkedinUrl'',
                  ''twitterUrl'', ''bankBranchAddress''].
                get row k = (if falsy (opt_get b k) then JNull else opt_get b k)
                \<and> (opt_get b k = JStr [] \<longrightarrow> get row k = JNull)
                \<and> get row k \<noteq> JStr [])
          \<and> get row ''yearsInBusiness'' =
               (if opt_get b ''yearsInBusiness'' = JUndefined
                   \<or> Number_js env (opt_get b ''yearsInBusiness'') = Fin 0
                then JNull else JNum (Number_js env (opt_get b ''yearsInBusiness'')))
          \<and> get row ''managesOwnShipping'' =
               (if opt_get b ''managesOwnShipping'' = JUndefined then JBool True
                else opt_get b ''managesOwnShipping'')
          \<and> get row ''needsShippingHelp'' =
               (if opt_get b ''needsShippingHelp'' = JUndefined then JBool False
                else opt_get b ''needsShippingHelp'')
          \<and> get row ''verificationStatus'' = JStr ''PENDING''
          \<and> get row ''termsAccepted'' = JBool True
          \<and> get row ''termsAcceptedAt'' = JDate (now c)
          \<and> (\<forall>k. k \<notin> set [''userId'', ''businessName'', ''businessType'', ''description'',
                  ''website'', ''phone'', ''businessEmail'', ''contactPersonName'',
                  ''addressLine1'', ''addressLine2'', ''city'', ''state'', ''country'',
                  ''postalCode'', ''taxId'', ''gstVatNumber'', ''businessLicense'',
                  ''yearsInBusiness'', ''facebookUrl'', ''instagramUrl'', ''linkedinUrl'',
                  ''twitterUrl'', ''bankAccountHolder'', ''bankName'', ''accountNumber'',
                  ''ifscSwiftCode'', ''bankBranchAddress'', ''productCategories'',
                  ''managesOwnShipping'', ''needsShippingHelp'', ''termsAccepted'',
                  ''termsAcceptedAt'', ''verificationStatus'']
                \<longrightarrow> get row k = get (generated c) k)"
    by (rule exI [of _ ?row]) (intro conjI rows fixed req opt years ship gen)
  obtain u where u: "u \<in> set (user st)" "get u ''id'' = ?uid"
    using assms(5) by (auto simp: find_None_iff)
  have users: "user (snd (POST env c st req)) =
      map (\<lambda>u. if get u ''id'' = ?uid
               then AList.update ''role'' (JStr ''SELLER'') u else u) (user st)"
    by (simp add: created)
  have ex: "\<exists>u \<in> set (user (snd (POST env c st req))). get u ''id'' = ?uid"
  proof -
    let ?u' = "AList.update ''role'' (JStr ''SELLER'') u"
    have "?u' \<in> set (map (\<lambda>u. if get u ''id'' = ?uid
                 then AList.update ''role'' (JStr ''SELLER'') u else u) (user st))"
      using u by (auto simp: image_iff intro!: bexI [of _ u])
    moreover have "get ?u' ''id'' = ?uid"
      using u by (simp add: get_update_role)
    ultimately show ?thesis unfolding users by blast
  qed
  have role: "\<forall>u \<in> set (user (snd (POST env c st req))).
          get u ''id'' = ?uid \<longrightarrow> get u ''role'' = JStr ''SELLER''"
    unfolding users by (auto simp: get_update_role)
  have other: "\<forall>d' g. get d' ''termsAccepted'' = JBool False \<longrightarrow>
          get (create_data ?uid (now c) d' @ g) ''termsAcceptedAt'' = JNull"
    by (simp add: create_data_status)
  show ?thesis by (intro conjI resp row users ex role other)
qed

theorem POST_creates_profile_witness:
  "fst (POST example_env example_call example_db
          \<lparr>session = example_session, body = Some (JObj example_payload)\<rparr>) =
      \<lparr>status = 201, message = Some ''Seller profile created successfully'', errors = None,
       seller = Some
         [(''id'', JStr ''sp1''),
          (''businessName'', JStr ''Acme Traders''),
          (''businessType'', JStr ''LLC''),
          (''verificationStatus'', JStr ''PENDING''),
          (''createdAt'', JDate 1001)]\<rparr>
   \<and> (\<exists>row. sellerProfile (snd (POST example_env example_call example_db
          \<lparr>session = example_session, body = Some (JObj example_payload)\<rparr>)) = [row]
         \<and> get row ''userId'' = JStr ''u1''
         \<and> get row ''taxId'' = JStr ''ABCDE1234F''
         \<and> get row ''website'' = JNull
         \<and> get row ''yearsInBusiness'' = JNull
         \<and> get row ''managesOwnShipping'' = JBool True
         \<and> get row ''verificationStatus'' = JStr ''PENDING''
         \<and> get row ''termsAcceptedAt'' = JDate 1000)
   \<and> (\<exists>u \<in> set (user (snd (POST example_env example_call example_db
          \<lparr>session = example_session, body = Some (JObj example_payload)\<rparr>))).
         get u ''id'' = JStr ''u1'' \<and> get u ''role'' = JStr ''SELLER'')"
proof -
  let ?b = "JObj example_payload"
  let ?req = "\<lparr>session = example_session, body = Some ?b\<rparr>"
  have uid: "session_user_id (session ?req) = JStr ''u1''"
    by (simp add: example_session_user_id)
  have auth: "\<not> falsy (session_user_id (session ?req))"
    by (simp add: example_session_user_id)
  have body: "body ?req = Some ?b" by simp
  have fresh: "sellerProfile_findUnique example_db (session_user_id (session ?req)) = None"
    by (simp add: example_session_user_id example_db_fresh)
  have known: "find (\<lambda>row. get row ''id'' = session_user_id (session ?req))
                 (user example_db) \<noteq> None"
    by (simp add: example_session_user_id example_db_fresh)
  have vals: "get (generated example_call) ''id'' = JStr ''sp1''"
      "get (generated example_call) ''createdAt'' = JDate 1001"
      "opt_get ?b ''businessName'' = JStr ''Acme Traders''"
      "opt_get ?b ''businessType'' = JStr ''LLC''"
      "opt_get ?b ''taxId'' = JStr ''ABCDE1234F''"
      "opt_get ?b ''website'' = JStr []"
      "opt_get ?b ''yearsInBusiness'' = JNum (Fin 0)"
      "opt_get ?b ''managesOwnShipping'' = JUndefined"
      "now example_call = 1000"
    by code_simp+
  have empty: "sellerProfile example_db = []"
    by (simp add: example_db_def)
  note main = POST_creates_profile [OF auth body example_payload_valid fresh known,
                of example_call]
  have a: "fst (POST example_env example_call example_db ?req) =
      \<lparr>status = 201, message = Some ''Seller profile created successfully'', errors = None,
       seller = Some
         [(''id'', JStr ''sp1''),
          (''businessName'', JStr ''Acme Traders''),
          (''businessType'', JStr ''LLC''),
          (''verificationStatus'', JStr ''PENDING''),
          (''createdAt'', JDate 1001)]\<rparr>"
    using main [THEN conjunct1] unfolding vals .
  obtain row where rows: "sellerProfile (snd (POST example_env example_call example_db ?req))
        = sellerProfile example_db @ [row]"
    and owner: "get row ''userId'' = session_user_id (session ?req)"
    and required: "\<forall>k \<in> set [''businessName'', ''businessType'', ''phone'',
                  ''contactPersonName'', ''addressLine1'', ''city'', ''state'', ''country'',
                  ''postalCode'', ''taxId'', ''businessLicense'', ''bankAccountHolder'',
                  ''bankName'', ''accountNumber'', ''ifscSwiftCode'', ''productCategories''].
                get row k = opt_get ?b k"
    and optional: "\<forall>k \<in> set [''description'', ''website'', ''businessEmail'',
                  ''addressLine2'', ''gstVatNumber'', ''facebookUrl'', ''instagramUrl'',
                  ''linkedinUrl'', ''twitterUrl'', ''bankBranchAddress''].
                get row k = (if falsy (opt_get ?b k) then JNull else opt_get ?b k)
                \<and> (opt_get ?b k = JStr [] \<longrightarrow> get row k = JNull)
                \<and> get row k \<noteq> JStr []"
    and years: "get row ''yearsInBusiness'' =
               (if opt_get ?b ''yearsInBusiness'' = JUndefined
                   \<or> Number_js example_env (opt_get ?b ''yearsInBusiness'') = Fin 0
                then JNull
                else JNum (Number_js example_env (opt_get ?b ''yearsInBusiness'')))"
    and ships: "get row ''managesOwnShipping'' =
               (if opt_get ?b ''managesOwnShipping'' = JUndefined then JBool True
                else opt_get ?b ''managesOwnShipping'')"
    and pending: "get row ''verificationStatus'' = JStr ''PENDING''"
    and at: "get row ''termsAcceptedAt'' = JDate (now example_call)"
    using main [THEN conjunct2, THEN conjunct1] by (elim exE conjE)
  have tax: "get row ''taxId'' = JStr ''ABCDE1234F''"
    using required vals(5) by simp
  have web: "get row ''website'' = JNull"
    using optional vals(6) by simp
  have yrs: "get row ''yearsInBusiness'' = JNull"
    using years unfolding vals(7) by simp
  have mos: "get row ''managesOwnShipping'' = JBool True"
    using ships unfolding vals(8) by simp
  have b: "\<exists>row. sellerProfile (snd (POST example_env example_call example_db ?req)) = [row]
         \<and> get row ''userId'' = JStr ''u1''
         \<and> get row ''taxId'' = JStr ''ABCDE1234F''
         \<and> get row ''website'' = JNull
         \<and> get row ''yearsInBusiness'' = JNull
         \<and> get row ''managesOwnShipping'' = JBool True
         \<and> get row ''verificationStatus'' = JStr ''PENDING''
         \<and> get row ''termsAcceptedAt'' = JDate 1000"
    using rows owner tax web yrs mos pending at
    unfolding uid empty append_Nil vals(9)
    by (intro exI [of _ row] conjI)
  have c: "\<exists>u \<in> set (user (snd (POST example_env example_call example_db ?req))).
         get u ''id'' = JStr ''u1'' \<and> get u ''role'' = JStr ''SELLER''"
    using main [THEN conjunct2, THEN conjunct2, THEN conjunct2, THEN conjunct1]
          main [THEN conjunct2, THEN conjunct2, THEN conjunct2, THEN conjunct2,
                THEN conjunct1]
    unfolding uid by blast
  show ?thesis using a b c by (intro conjI)
qed

text \<open>
  C3 as it is stated fails: for an authenticated identity without a row in the user table,
  the profile is created, the role update throws, and the answer is 500 with the profile
  row kept.
\<close>

theorem POST_unknown_user_keeps_profile:
  "\<not> falsy (session_user_id example_session_unknown)
   \<and> sellerProfile_findUnique example_db (session_user_id example_session_unknown) = None
   \<and> safeParse example_env route_sellerRegistrationSchema (JObj example_payload)
       = Inr example_data
   \<and> status (fst (POST example_env example_call example_db
                  \<lparr>session = example_session_unknown,
                   body = Some (JObj example_payload)\<rparr>)) = 500
   \<and> length (sellerProfile (snd (POST example_env example_call example_db
                  \<lparr>session = example_session_unknown,
                   body = Some (JObj example_payload)\<rparr>))) = 1
   \<and> user (snd (POST example_env example_call example_db
                  \<lparr>session = example_session_unknown,
                   body = Some (JObj example_payload)\<rparr>)) = user example_db"
proof -
  let ?req = "\<lparr>session = example_session_unknown, body = Some (JObj example_payload)\<rparr>"
  have uid: "session_user_id example_session_unknown = JStr ''u3''"
    by (simp add: session_user_id_def example_session_unknown_def opt_get_def get_def)
  have auth: "\<not> falsy (session_user_id (session ?req))"
    by (simp add: uid)
  have body: "body ?req = Some (JObj example_payload)" by simp
  have fresh: "sellerProfile_findUnique example_db (session_user_id (session ?req)) = None"
    by (simp add: uid sellerProfile_findUnique_def example_db_def)
  have unknown: "find (\<lambda>row. get row ''id'' = session_user_id (session ?req))
                   (user example_db) = None"
    by (simp add: uid example_db_def get_def)
  note failed = POST_role_update_fails [OF auth body example_payload_valid fresh unknown,
                  of example_call]
  have "status (fst (POST example_env example_call example_db ?req)) = 500"
    by (simp add: failed message_response_def)
  moreover have "sellerProfile example_db = []"
    by (simp add: example_db_def)
  then have "length (sellerProfile (snd (POST example_env example_call example_db ?req)))
                   = 1"
    by (simp add: failed)
  moreover have "user (snd (POST example_env example_call example_db ?req))
                   = user example_db"
    by (simp add: failed)
  ultimately show ?thesis
    using auth fresh example_payload_valid by simp
qed

end
